theory Spec2Isabelle
  imports Main
begin

section \<open>Values, exceptions and effects\<close>

text \<open>
  The endpoints of \<^verbatim>\<open>src/app/main.py\<close> move JSON-like Python values between the cache and
  the pydantic models. Only their shape and their truth value matter to the control flow
  (\<^verbatim>\<open>if not refresh and (cached_result := await get_cache(cache_key))\<close> tests the truth
  value of what the cache returned, and Python's \<^verbatim>\<open>None\<close>, \<^verbatim>\<open>[]\<close>, \<^verbatim>\<open>{}\<close>, \<^verbatim>\<open>""\<close>,
  \<^verbatim>\<open>0\<close> and \<^verbatim>\<open>False\<close> are all false). Numbers are integers here; no endpoint computes with them.
\<close>

datatype json =
    JNull
  | JBool bool
  | JNum int
  | JStr string
  | JList "json list"
  | JDict "(string \<times> json) list"

fun truthy :: "json \<Rightarrow> bool" where
  "truthy JNull = False"
| "truthy (JBool b) = b"
| "truthy (JNum n) = (n \<noteq> 0)"
| "truthy (JStr s) = (s \<noteq> [])"
| "truthy (JList xs) = (xs \<noteq> [])"
| "truthy (JDict kvs) = (kvs \<noteq> [])"

text \<open>
  Iterating a Python value, as the list comprehensions over \<^verbatim>\<open>cached_result\<close> do: a list
  yields its elements, a dict its keys, a string its characters; anything else raises
  \<^verbatim>\<open>TypeError\<close>.
\<close>

datatype exn =
    HTTPException nat string
  | Exception string

fun py_iter :: "json \<Rightarrow> exn + json list" where
  "py_iter (JList xs) = Inr xs"
| "py_iter (JDict kvs) = Inr (map (\<lambda>kv. JStr (fst kv)) kvs)"
| "py_iter (JStr s) = Inr (map (\<lambda>c. JStr [c]) s)"
| "py_iter v = Inl (Exception ''object is not iterable'')"

text \<open>A comprehension \<^verbatim>\<open>[C(**x) for x in xs]\<close>: the first exception ends it.\<close>

fun traverse :: "('x \<Rightarrow> exn + 'y) \<Rightarrow> 'x list \<Rightarrow> exn + 'y list" where
  "traverse f [] = Inr []"
| "traverse f (x # xs) =
     (case f x of
        Inl e \<Rightarrow> Inl e
      | Inr y \<Rightarrow> (case traverse f xs of Inl e \<Rightarrow> Inl e | Inr ys \<Rightarrow> Inr (y # ys)))"

definition comprehension :: "(json \<Rightarrow> exn + 'y) \<Rightarrow> json \<Rightarrow> exn + 'y list" where
  "comprehension C v = (case py_iter v of Inl e \<Rightarrow> Inl e | Inr xs \<Rightarrow> traverse C xs)"

text \<open>
  Every call an endpoint makes to a collaborator (the cache, the scraper, the metrics
  object) is recorded, in order, so that "is invoked" and "is never invoked" are
  statements about this log.
\<close>

datatype event =
    GetCache string
  | SetCache string json nat
  | GetAlbumUrl string string
  | ScrapeAlbum string string string
  | GetSimilarAlbums string int
  | SearchAlbums string int
  | GetUserProfile string
  | RecordRequest bool
  | RecordResponseTime
  | RecordError

record cache_entry =
  entry_value :: json
  entry_ttl :: nat
  inserted_at :: nat

record state =
  entries :: "string \<rightharpoonup> cache_entry"
  reachable :: bool
  now :: nat
  log :: "event list"

text \<open>
  Modelled from the spec: \<^verbatim>\<open>get_cache\<close> and \<^verbatim>\<open>set_cache\<close> of \<^verbatim>\<open>app/utils/cache.py\<close>, which
  is not among the sources. The spec (4.5, 3) gives \<^verbatim>\<open>get(key) -> value | miss\<close> and
  \<^verbatim>\<open>set(key, value, ttl)\<close>, neither of which throws; an entry holds its value, its
  time-to-live and its insertion time, and expires lazily on the next read; an
  unreachable or unconfigured store is always-miss and no-op-set. A miss is Python's
  \<^verbatim>\<open>None\<close>.
\<close>

definition get_cache :: "state \<Rightarrow> string \<Rightarrow> json" where
  "get_cache s key =
     (if \<not> reachable s then JNull
      else case entries s key of
             None \<Rightarrow> JNull
           | Some e \<Rightarrow> if now s < inserted_at e + entry_ttl e then entry_value e else JNull)"

definition set_cache :: "string \<Rightarrow> json \<Rightarrow> nat \<Rightarrow> state \<Rightarrow> state" where
  "set_cache key v ttl s =
     (if reachable s
      then s\<lparr>entries := (entries s)(key \<mapsto> \<lparr>entry_value = v, entry_ttl = ttl, inserted_at = now s\<rparr>)\<rparr>
      else s)"

text \<open>
  An awaited step either returns a value or raises, and may change the state. \<open>andThen\<close>
  is sequencing inside a \<^verbatim>\<open>try\<close> block: an exception skips the rest.
\<close>

type_synonym 'x act = "state \<Rightarrow> (exn + 'x) \<times> state"

definition ret :: "'x \<Rightarrow> 'x act" where
  "ret x s = (Inr x, s)"

definition raise :: "exn \<Rightarrow> 'x act" where
  "raise e s = (Inl e, s)"

definition andThen :: "'x act \<Rightarrow> ('x \<Rightarrow> 'y act) \<Rightarrow> 'y act" where
  "andThen m f s = (case m s of (Inl e, s') \<Rightarrow> (Inl e, s') | (Inr x, s') \<Rightarrow> f x s')"

definition emit :: "event \<Rightarrow> state \<Rightarrow> state" where
  "emit ev s = s\<lparr>log := log s @ [ev]\<rparr>"

definition call :: "event \<Rightarrow> exn + 'x \<Rightarrow> 'x act" where
  "call ev r s = (r, emit ev s)"

definition lift :: "exn + 'x \<Rightarrow> 'x act" where
  "lift r s = (r, s)"

definition cache_get :: "string \<Rightarrow> json act" where
  "cache_get key s = (Inr (get_cache s key), emit (GetCache key) s)"

definition cache_set :: "string \<Rightarrow> json \<Rightarrow> nat \<Rightarrow> unit act" where
  "cache_set key v ttl s = (Inr (), emit (SetCache key v ttl) (set_cache key v ttl s))"

definition record_request :: "bool \<Rightarrow> unit act" where
  "record_request cache_hit = call (RecordRequest cache_hit) (Inr ())"

definition record_response_time :: "unit act" where
  "record_response_time = call RecordResponseTime (Inr ())"

text \<open>The events a request added to the log.\<close>

definition events_since :: "state \<Rightarrow> state \<Rightarrow> event list" where
  "events_since s s' = drop (length (log s)) (log s')"

section \<open>String formatting\<close>

text \<open>\<^verbatim>\<open>f"{limit}"\<close> for an \<^verbatim>\<open>int\<close>: the decimal digits, with a minus sign when negative.\<close>

definition digit_char :: "nat \<Rightarrow> char" where
  "digit_char d = char_of (48 + d)"

fun str_nat :: "nat \<Rightarrow> string" where
  "str_nat n = (if n < 10 then [digit_char n] else str_nat (n div 10) @ [digit_char (n mod 10)])"

declare str_nat.simps [simp del]

definition str_int :: "int \<Rightarrow> string" where
  "str_int i = (if i < 0 then CHR ''-'' # str_nat (nat (- i)) else str_nat (nat i))"

section \<open>The collaborators\<close>

text \<open>
  The scraper (\<^verbatim>\<open>app/scraper/aoty_scraper.py\<close>), the pydantic models (\<^verbatim>\<open>app/models.py\<close>)
  and the TTL constants are imported by \<^verbatim>\<open>main.py\<close> and are not among the sources; they
  are parameters. A scraper function returns or raises; \<^verbatim>\<open>get_album_url\<close> returns
  \<^verbatim>\<open>None\<close> or a triple \<^verbatim>\<open>(url, artist_name, title)\<close>. \<^verbatim>\<open>Album(**d)\<close> validates and may
  raise; \<^verbatim>\<open>.dict()\<close> does not. \<open>str_HTTPException\<close> is \<^verbatim>\<open>str(e)\<close> for an \<^verbatim>\<open>HTTPException\<close>.
\<close>

record ('a, 'u, 'r) world =
  get_album_url :: "string \<Rightarrow> string \<Rightarrow> exn + (string \<times> string \<times> string) option"
  scrape_album :: "string \<Rightarrow> string \<Rightarrow> string \<Rightarrow> exn + 'a"
  get_similar_albums :: "string \<Rightarrow> int \<Rightarrow> exn + 'a list"
  search_albums :: "string \<Rightarrow> int \<Rightarrow> exn + 'r list"
  get_user_profile :: "string \<Rightarrow> exn + 'u"
  Album :: "json \<Rightarrow> exn + 'a"
  album_dict :: "'a \<Rightarrow> json"
  UserProfile :: "json \<Rightarrow> exn + 'u"
  user_dict :: "'u \<Rightarrow> json"
  SearchResult :: "json \<Rightarrow> exn + 'r"
  result_dict :: "'r \<Rightarrow> json"
  ALBUM_TTL :: nat
  SIMILAR_TTL :: nat
  USER_TTL :: nat
  SEARCH_TTL :: nat
  str_HTTPException :: "nat \<Rightarrow> string \<Rightarrow> string"

section \<open>The endpoints of main.py\<close>

text \<open>
  Each endpoint is its \<^verbatim>\<open>try\<close> block under its \<^verbatim>\<open>except\<close> clauses. The rate limiter, CORS
  and the duration passed to \<^verbatim>\<open>record_response_time\<close> are left out, and so are exceptions
  outside the \<^verbatim>\<open>Exception\<close> hierarchy (a cancelled task), which no handler here catches.
  The metrics calls and, by the spec's cache contract, the cache calls do not raise.

  \<^verbatim>\<open>except HTTPException: raise\<close> followed by
  \<^verbatim>\<open>except Exception as e: metrics.record_error(); raise HTTPException(503, str(e))\<close>.
\<close>

definition except_http_reraise :: "'x act \<Rightarrow> 'x act" where
  "except_http_reraise body s =
     (case body s of
        (Inr x, s') \<Rightarrow> (Inr x, s')
      | (Inl (HTTPException code detail), s') \<Rightarrow> (Inl (HTTPException code detail), s')
      | (Inl (Exception msg), s') \<Rightarrow> (Inl (HTTPException 503 msg), emit RecordError s'))"

text \<open>
  The search endpoint has the second handler only; \<^verbatim>\<open>HTTPException\<close> is an \<^verbatim>\<open>Exception\<close>,
  so it is caught too.
\<close>

definition except_all :: "(nat \<Rightarrow> string \<Rightarrow> string) \<Rightarrow> 'x act \<Rightarrow> 'x act" where
  "except_all str_http body s =
     (case body s of
        (Inr x, s') \<Rightarrow> (Inr x, s')
      | (Inl (HTTPException code detail), s') \<Rightarrow>
          (Inl (HTTPException 503 (str_http code detail)), emit RecordError s')
      | (Inl (Exception msg), s') \<Rightarrow> (Inl (HTTPException 503 msg), emit RecordError s'))"

subsection \<open>get_album_endpoint\<close>

definition album_key :: "string \<Rightarrow> string \<Rightarrow> string" where
  "album_key artist album = ''album:'' @ artist @ '':'' @ album"

definition album_miss :: "('a, 'u, 'r) world \<Rightarrow> string \<Rightarrow> string \<Rightarrow> 'a act" where
  "album_miss w artist album =
     andThen (record_request False) (\<lambda>_.
     andThen (call (GetAlbumUrl artist album) (get_album_url w artist album)) (\<lambda>result.
     case result of
       None \<Rightarrow> raise (HTTPException 404 ''Album not found'')
     | Some (url, artist_name, title) \<Rightarrow>
         andThen (call (ScrapeAlbum url artist_name title) (scrape_album w url artist_name title))
           (\<lambda>album_data.
         andThen (cache_set (album_key artist album) (album_dict w album_data) (ALBUM_TTL w)) (\<lambda>_.
         andThen record_response_time (\<lambda>_.
         ret album_data)))))"

definition album_hit :: "('a, 'u, 'r) world \<Rightarrow> json \<Rightarrow> 'a act" where
  "album_hit w cached_result =
     andThen (record_request True) (\<lambda>_. lift (Album w cached_result))"

definition get_album_endpoint ::
  "('a, 'u, 'r) world \<Rightarrow> string \<Rightarrow> string \<Rightarrow> bool \<Rightarrow> 'a act" where
  "get_album_endpoint w artist album refresh =
     except_http_reraise
       (if refresh then album_miss w artist album
        else andThen (cache_get (album_key artist album)) (\<lambda>cached_result.
             if truthy cached_result then album_hit w cached_result
             else album_miss w artist album))"

subsection \<open>get_similar_albums_endpoint\<close>

definition similar_key :: "string \<Rightarrow> string \<Rightarrow> int \<Rightarrow> string" where
  "similar_key artist album limit = ''similar:'' @ artist @ '':'' @ album @ '':'' @ str_int limit"

definition similar_miss :: "('a, 'u, 'r) world \<Rightarrow> string \<Rightarrow> string \<Rightarrow> int \<Rightarrow> 'a list act" where
  "similar_miss w artist album limit =
     andThen (record_request False) (\<lambda>_.
     andThen (call (GetAlbumUrl artist album) (get_album_url w artist album)) (\<lambda>result.
     case result of
       None \<Rightarrow> raise (HTTPException 404 ''Album not found'')
     | Some (url, _, _) \<Rightarrow>
         andThen (call (GetSimilarAlbums url limit) (get_similar_albums w url limit))
           (\<lambda>similar_albums.
         andThen (cache_set (similar_key artist album limit)
                    (JList (map (album_dict w) similar_albums)) (SIMILAR_TTL w)) (\<lambda>_.
         andThen record_response_time (\<lambda>_.
         ret similar_albums)))))"

definition similar_hit :: "('a, 'u, 'r) world \<Rightarrow> json \<Rightarrow> 'a list act" where
  "similar_hit w cached_result =
     andThen (record_request True) (\<lambda>_. lift (comprehension (Album w) cached_result))"

definition get_similar_albums_endpoint ::
  "('a, 'u, 'r) world \<Rightarrow> string \<Rightarrow> string \<Rightarrow> bool \<Rightarrow> int \<Rightarrow> 'a list act" where
  "get_similar_albums_endpoint w artist album refresh limit =
     except_http_reraise
       (if refresh then similar_miss w artist album limit
        else andThen (cache_get (similar_key artist album limit)) (\<lambda>cached_result.
             if truthy cached_result then similar_hit w cached_result
             else similar_miss w artist album limit))"

subsection \<open>search_albums_endpoint\<close>

definition search_key :: "string \<Rightarrow> int \<Rightarrow> string" where
  "search_key query limit = ''search:'' @ query @ '':'' @ str_int limit"

definition search_miss :: "('a, 'u, 'r) world \<Rightarrow> string \<Rightarrow> int \<Rightarrow> 'r list act" where
  "search_miss w query limit =
     andThen (record_request False) (\<lambda>_.
     andThen (call (SearchAlbums query limit) (search_albums w query limit)) (\<lambda>results.
     andThen (cache_set (search_key query limit)
                (JList (map (result_dict w) results)) (SEARCH_TTL w)) (\<lambda>_.
     andThen record_response_time (\<lambda>_.
     ret results))))"

definition search_hit :: "('a, 'u, 'r) world \<Rightarrow> json \<Rightarrow> 'r list act" where
  "search_hit w cached_result =
     andThen (record_request True) (\<lambda>_. lift (comprehension (SearchResult w) cached_result))"

definition search_albums_endpoint ::
  "('a, 'u, 'r) world \<Rightarrow> string \<Rightarrow> int \<Rightarrow> 'r list act" where
  "search_albums_endpoint w query limit =
     except_all (str_HTTPException w)
       (andThen (cache_get (search_key query limit)) (\<lambda>cached_result.
        if truthy cached_result then search_hit w cached_result
        else search_miss w query limit))"

subsection \<open>get_user_endpoint\<close>

definition user_key :: "string \<Rightarrow> string" where
  "user_key username = ''user:'' @ username"

definition user_miss :: "('a, 'u, 'r) world \<Rightarrow> string \<Rightarrow> 'u act" where
  "user_miss w username =
     andThen (record_request False) (\<lambda>_.
     andThen (call (GetUserProfile username) (get_user_profile w username)) (\<lambda>user_profile.
     andThen (cache_set (user_key username) (user_dict w user_profile) (USER_TTL w)) (\<lambda>_.
     andThen record_response_time (\<lambda>_.
     ret user_profile))))"

definition user_hit :: "('a, 'u, 'r) world \<Rightarrow> json \<Rightarrow> 'u act" where
  "user_hit w cached_result =
     andThen (record_request True) (\<lambda>_. lift (UserProfile w cached_result))"

definition get_user_endpoint :: "('a, 'u, 'r) world \<Rightarrow> string \<Rightarrow> bool \<Rightarrow> 'u act" where
  "get_user_endpoint w username refresh =
     except_http_reraise
       (if refresh then user_miss w username
        else andThen (cache_get (user_key username)) (\<lambda>cached_result.
             if truthy cached_result then user_hit w cached_result
             else user_miss w username))"

subsection \<open>Request validation\<close>

text \<open>
  \<^verbatim>\<open>limit: int = Query(10, ge=1, le=20)\<close> (search) and \<^verbatim>\<open>Query(5, ge=1, le=10)\<close> (similar
  albums): the framework substitutes the default for an absent parameter and rejects a
  value outside the bounds before the endpoint runs (\<open>None\<close> here).
\<close>

definition search_albums_route ::
  "('a, 'u, 'r) world \<Rightarrow> string \<Rightarrow> int option \<Rightarrow> state \<Rightarrow> ((exn + 'r list) \<times> state) option" where
  "search_albums_route w query limit_param s =
     (let limit = (case limit_param of None \<Rightarrow> 10 | Some l \<Rightarrow> l)
      in if 1 \<le> limit \<and> limit \<le> 20 then Some (search_albums_endpoint w query limit s) else None)"

definition similar_albums_route ::
  "('a, 'u, 'r) world \<Rightarrow> string \<Rightarrow> string \<Rightarrow> bool \<Rightarrow> int option \<Rightarrow> state
     \<Rightarrow> ((exn + 'a list) \<times> state) option" where
  "similar_albums_route w artist album refresh limit_param s =
     (let limit = (case limit_param of None \<Rightarrow> 5 | Some l \<Rightarrow> l)
      in if 1 \<le> limit \<and> limit \<le> 10
         then Some (get_similar_albums_endpoint w artist album refresh limit s) else None)"

section \<open>config.py\<close>

definition HEADERS :: "(string \<times> string) list" where
  "HEADERS =
     [(''Accept'', ''application/json, text/plain, */*''),
      (''Accept-Language'', ''en-US,en;q=0.9''),
      (''User-Agent'',
       ''Mozilla/5.0 (Windows NT 10.0; Win64; x64) AppleWebKit/537.36 (KHTML, like Gecko) Chrome/123.0.0.0 Safari/537.36'')]"

text \<open>
  Modelled from the spec: the Fetcher of \<^verbatim>\<open>app/scraper/aoty_scraper.py\<close>, which is not among
  the sources and is where \<^verbatim>\<open>HEADERS\<close> is put on the wire. The spec (4.1, 6) gives
  \<^verbatim>\<open>fetch(url, {render, timeoutMs}) -> rawMarkup\<close>, failing with \<^verbatim>\<open>UpstreamTimeout\<close>,
  \<^verbatim>\<open>UpstreamUnreachable\<close> or \<^verbatim>\<open>UpstreamBlocked\<close>, "one additional attempt on transient
  network failure only", and "a fixed outbound header set (Accept, Accept-Language,
  User-Agent) presented to the upstream site". The site answers an attempt (numbered from
  0) to a request; \<open>fetch\<close> returns the outcome and the requests it sent, in order.
\<close>

datatype fetch_failure = UpstreamTimeout | UpstreamUnreachable | UpstreamBlocked

record outbound_request =
  request_url :: string
  request_headers :: "(string \<times> string) list"
  rendering :: bool
  timeout_ms :: nat

definition fetch ::
  "(nat \<Rightarrow> outbound_request \<Rightarrow> fetch_failure + string) \<Rightarrow> string \<Rightarrow> bool \<Rightarrow> nat
     \<Rightarrow> (fetch_failure + string) \<times> outbound_request list" where
  "fetch site url render timeoutMs =
     (let request = \<lparr>request_url = url, request_headers = HEADERS, rendering = render,
                     timeout_ms = timeoutMs\<rparr>
      in case site 0 request of
           Inl UpstreamUnreachable \<Rightarrow> (site 1 request, [request, request])
         | outcome \<Rightarrow> (outcome, [request]))"

section \<open>Notions used to state the properties\<close>

text \<open>Several events at once; \<open>emit ev\<close> is \<open>emits [ev]\<close>.\<close>

definition emits :: "event list \<Rightarrow> state \<Rightarrow> state" where
  "emits evs s = s\<lparr>log := log s @ evs\<rparr>"

text \<open>
  Python's \<^verbatim>\<open>str.lower\<close> on ASCII text. No endpoint calls it; it only says when two
  arguments differ in nothing but letter case.
\<close>

definition lower_char :: "char \<Rightarrow> char" where
  "lower_char c = (let n = (of_char c :: nat) in if 65 \<le> n \<and> n \<le> 90 then char_of (n + 32) else c)"

definition lower_str :: "string \<Rightarrow> string" where
  "lower_str s = map lower_char s"

text \<open>The value of a string of decimal digits, to read back what \<open>str_nat\<close> printed.\<close>

definition nat_of_digits :: "string \<Rightarrow> nat" where
  "nat_of_digits s = foldl (\<lambda>a c. 10 * a + (of_char c - 48)) 0 s"

text \<open>
  The transport status of a response: that of the \<^verbatim>\<open>HTTPException\<close>, 200 for a returned
  value, and 500 from \<^verbatim>\<open>global_exception_handler\<close> for any other exception.
\<close>

fun response_status :: "exn + 'x \<Rightarrow> nat" where
  "response_status (Inr v) = 200"
| "response_status (Inl (HTTPException code detail)) = code"
| "response_status (Inl (Exception msg)) = 500"

text \<open>
  The same collaborators with the message text of every exception they raise rewritten
  by \<open>f\<close>: which calls fail, and with which class and status code, is unchanged.
\<close>

fun reword_exn :: "(string \<Rightarrow> string) \<Rightarrow> exn \<Rightarrow> exn" where
  "reword_exn f (HTTPException code detail) = HTTPException code (f detail)"
| "reword_exn f (Exception msg) = Exception (f msg)"

definition reword :: "(string \<Rightarrow> string) \<Rightarrow> exn + 'x \<Rightarrow> exn + 'x" where
  "reword f r = (case r of Inl e \<Rightarrow> Inl (reword_exn f e) | Inr x \<Rightarrow> Inr x)"

definition reworded :: "(string \<Rightarrow> string) \<Rightarrow> ('a, 'u, 'r) world \<Rightarrow> ('a, 'u, 'r) world" where
  "reworded f w =
     w\<lparr>get_album_url := \<lambda>artist album. reword f (get_album_url w artist album),
       scrape_album := \<lambda>url artist title. reword f (scrape_album w url artist title),
       get_similar_albums := \<lambda>url limit. reword f (get_similar_albums w url limit),
       search_albums := \<lambda>query limit. reword f (search_albums w query limit),
       get_user_profile := \<lambda>username. reword f (get_user_profile w username),
       Album := \<lambda>v. reword f (Album w v),
       UserProfile := \<lambda>v. reword f (UserProfile w v),
       SearchResult := \<lambda>v. reword f (SearchResult w v)\<rparr>"

text \<open>
  Modelled from the spec: \<^verbatim>\<open>search_albums\<close> of \<^verbatim>\<open>app/scraper/aoty_scraper.py\<close>, which is not
  among the sources. The spec (8) has a search with a limit return "at most" that many
  "SearchResult entries, ordered as provided by upstream": the first \<open>limit\<close> entries of
  the upstream listing, or the failure of fetching it.
\<close>

definition search_albums_spec :: "(string \<Rightarrow> exn + 'r list) \<Rightarrow> string \<Rightarrow> int \<Rightarrow> exn + 'r list" where
  "search_albums_spec upstream query limit =
     (case upstream query of Inl e \<Rightarrow> Inl e | Inr listing \<Rightarrow> Inr (take (nat limit) listing))"

text \<open>
  Modelled from the spec: the models of \<^verbatim>\<open>app/models.py\<close>, which are not among the sources.
  The cached value is "a JSON-serializable representation of the domain record" (6) and a
  second call within the TTL "returns an identical record" (8): building a search result
  from its own \<^verbatim>\<open>.dict()\<close> gives the result back.
\<close>

definition results_round_trip :: "('a, 'u, 'r) world \<Rightarrow> bool" where
  "results_round_trip w = (\<forall>r. SearchResult w (result_dict w r) = Inr r)"

text \<open>
  Every entry stored under a search key holds what the search endpoint stores there: the
  serialized first \<open>limit\<close> entries of the upstream listing of its query, in the listing's
  order. The empty cache has the property and every endpoint keeps it.
\<close>

definition search_entries_from_upstream ::
  "('a, 'u, 'r) world \<Rightarrow> (string \<Rightarrow> exn + 'r list) \<Rightarrow> state \<Rightarrow> bool" where
  "search_entries_from_upstream w upstream s =
     (\<forall>query limit e. entries s (search_key query limit) = Some e \<longrightarrow>
        (\<exists>listing. upstream query = Inr listing
           \<and> entry_value e = JList (map (result_dict w) (take (nat limit) listing))))"

text \<open>
  Modelled from the spec: the failures of the core (\<^verbatim>\<open>app/scraper/aoty_scraper.py\<close>, not
  among the sources). The spec (7) has three kinds, \<^verbatim>\<open>NotFound\<close>, \<^verbatim>\<open>UpstreamUnavailable\<close> and
  \<^verbatim>\<open>ParseError\<close>, and "all failures from the core are typed/tagged, never raw exceptions
  with string-only content", each kind standing for a transport outcome. The except
  clauses of \<^verbatim>\<open>main.py\<close> tell exceptions apart by class and status code, so a failure whose
  kind can be read without its message is an \<^verbatim>\<open>HTTPException\<close> carrying the status of its
  kind; a bare \<^verbatim>\<open>Exception\<close> with a message is what the spec rules out. The locator's
  \<^verbatim>\<open>NotFound\<close> is the \<^verbatim>\<open>None\<close> that \<^verbatim>\<open>main.py\<close> tests for.
\<close>

datatype failure = NotFound | UpstreamUnavailable | ParseError

definition tagged :: "(failure \<Rightarrow> nat) \<Rightarrow> exn \<Rightarrow> bool" where
  "tagged status_of e = (\<exists>kind detail. e = HTTPException (status_of kind) detail)"


section \<open>A concrete instance\<close>

text \<open>
  A small world to run the endpoints in: a record is its title, serialized as a dict
  with the one key \<^verbatim>\<open>title\<close>; the site knows one album and one user name is absent.
\<close>

fun demo_parse :: "json \<Rightarrow> exn + string" where
  "demo_parse (JDict [(k, JStr t)]) = (if k = ''title'' then Inr t else Inl (Exception ''validation error''))"
| "demo_parse v = Inl (Exception ''validation error'')"

definition demo_dict :: "string \<Rightarrow> json" where
  "demo_dict t = JDict [(''title'', JStr t)]"

definition demo_upstream :: "string \<Rightarrow> exn + string list" where
  "demo_upstream query =
     (if query = ''Radiohead'' then Inr [''OK Computer'', ''Kid A'', ''The Bends''] else Inr [])"

definition demo_world :: "(string, string, string) world" where
  "demo_world =
     \<lparr>get_album_url = (\<lambda>artist album.
          if artist = ''Radiohead'' \<and> album = ''OK Computer''
          then Inr (Some (''/album/1'', artist, album)) else Inr None),
      scrape_album = (\<lambda>url artist title. Inr title),
      get_similar_albums = (\<lambda>url limit. Inr (take (nat limit) [''Kid A'', ''The Bends''])),
      search_albums = search_albums_spec demo_upstream,
      get_user_profile = (\<lambda>username.
          if username = ''ghost'' then Inl (HTTPException 404 ''User not found'') else Inr username),
      Album = demo_parse,
      album_dict = demo_dict,
      UserProfile = demo_parse,
      user_dict = demo_dict,
      SearchResult = demo_parse,
      result_dict = demo_dict,
      ALBUM_TTL = 3600,
      SIMILAR_TTL = 7200,
      USER_TTL = 600,
      SEARCH_TTL = 300,
      str_HTTPException = (\<lambda>code detail. str_nat code @ '': '' @ detail)\<rparr>"


definition flaky_site :: "nat \<Rightarrow> outbound_request \<Rightarrow> fetch_failure + string" where
  "flaky_site attempt request = (if attempt = 0 then Inl UpstreamUnreachable else Inr ''<html></html>'')"

definition timeout_world :: "(string, string, string) world" where
  "timeout_world = demo_world\<lparr>scrape_album := \<lambda>url artist title. Inl (Exception ''Timeout 30000ms exceeded'')\<rparr>"

definition empty_state :: state where
  "empty_state = \<lparr>entries = Map.empty, reachable = True, now = 0, log = []\<rparr>"

definition stale_entry :: cache_entry where
  "stale_entry = \<lparr>entry_value = demo_dict ''Old'', entry_ttl = 3600, inserted_at = 0\<rparr>"

definition stale_list_entry :: cache_entry where
  "stale_list_entry = \<lparr>entry_value = JList [demo_dict ''Old''], entry_ttl = 3600, inserted_at = 0\<rparr>"

definition cached_state :: state where
  "cached_state =
     \<lparr>entries = [''album:Radiohead:OK Computer'' \<mapsto> stale_entry,
                 ''search:Radiohead:10'' \<mapsto> stale_list_entry,
                 ''similar:Radiohead:OK Computer:5'' \<mapsto> stale_list_entry,
                 ''user:evrynoiseatonce'' \<mapsto> stale_entry],
      reachable = True, now = 100, log = []\<rparr>"

section \<open>Basic facts\<close>

named_theorems act_defs

lemmas [act_defs] = ret_def raise_def andThen_def call_def lift_def cache_get_def cache_set_def
  record_request_def record_response_time_def

lemma emit_emits [simp]: "emit ev s = emits [ev] s"
  by (simp add: emit_def emits_def)

lemma emits_emits [simp]: "emits evs (emits evs' s) = emits (evs' @ evs) s"
  by (simp add: emits_def)

lemma set_cache_emits [simp]: "set_cache k v t (emits evs s) = emits evs (set_cache k v t s)"
  by (simp add: emits_def set_cache_def)

lemma get_cache_emits [simp]: "get_cache (emits evs s) k = get_cache s k"
  by (simp add: emits_def get_cache_def split: option.splits)

lemma log_emits [simp]: "log (emits evs s) = log s @ evs"
  by (simp add: emits_def)

lemma entries_emits [simp]: "entries (emits evs s) = entries s"
  by (simp add: emits_def)

lemma reachable_emits [simp]: "reachable (emits evs s) = reachable s"
  by (simp add: emits_def)

lemma now_emits [simp]: "now (emits evs s) = now s"
  by (simp add: emits_def)

lemma log_set_cache [simp]: "log (set_cache k v t s) = log s"
  by (simp add: set_cache_def)

lemma events_since_emits [simp]: "events_since s (emits evs s) = evs"
  by (simp add: events_since_def)

lemma events_since_emits_set [simp]: "events_since s (emits evs (set_cache k v t s)) = evs"
  by (simp add: events_since_def)

lemma events_since_emits2 [simp]: "events_since s (emits evs (emits evs' s)) = evs' @ evs"
  by (simp add: events_since_def)

lemma events_since_emits2_set [simp]:
  "events_since s (emits evs (set_cache k v t (emits evs' s))) = evs' @ evs"
  by (simp add: events_since_def)

lemma entries_set_cache:
  "entries (set_cache k v t s) =
     (if reachable s then (entries s)(k \<mapsto> \<lparr>entry_value = v, entry_ttl = t, inserted_at = now s\<rparr>)
      else entries s)"
  by (simp add: set_cache_def)

subsection \<open>The two paths of each endpoint, in closed form\<close>

lemma album_miss_eq:
  "album_miss w artist album s =
     (case get_album_url w artist album of
        Inl e \<Rightarrow> (Inl e, emits [RecordRequest False, GetAlbumUrl artist album] s)
      | Inr None \<Rightarrow> (Inl (HTTPException 404 ''Album not found''),
                      emits [RecordRequest False, GetAlbumUrl artist album] s)
      | Inr (Some (url, artist_name, title)) \<Rightarrow>
          (case scrape_album w url artist_name title of
             Inl e \<Rightarrow> (Inl e, emits [RecordRequest False, GetAlbumUrl artist album,
                                    ScrapeAlbum url artist_name title] s)
           | Inr album_data \<Rightarrow>
               (Inr album_data,
                emits [RecordRequest False, GetAlbumUrl artist album,
                       ScrapeAlbum url artist_name title,
                       SetCache (album_key artist album) (album_dict w album_data) (ALBUM_TTL w),
                       RecordResponseTime]
                  (set_cache (album_key artist album) (album_dict w album_data) (ALBUM_TTL w) s))))"
  by (simp add: album_miss_def act_defs split: sum.splits option.splits prod.splits)

lemma album_hit_eq:
  "album_hit w v s = (Album w v, emits [RecordRequest True] s)"
  by (simp add: album_hit_def act_defs split: sum.splits)

lemma similar_miss_eq:
  "similar_miss w artist album limit s =
     (case get_album_url w artist album of
        Inl e \<Rightarrow> (Inl e, emits [RecordRequest False, GetAlbumUrl artist album] s)
      | Inr None \<Rightarrow> (Inl (HTTPException 404 ''Album not found''),
                      emits [RecordRequest False, GetAlbumUrl artist album] s)
      | Inr (Some (url, artist_name, title)) \<Rightarrow>
          (case get_similar_albums w url limit of
             Inl e \<Rightarrow> (Inl e, emits [RecordRequest False, GetAlbumUrl artist album,
                                    GetSimilarAlbums url limit] s)
           | Inr similar_albums \<Rightarrow>
               (Inr similar_albums,
                emits [RecordRequest False, GetAlbumUrl artist album,
                       GetSimilarAlbums url limit,
                       SetCache (similar_key artist album limit)
                         (JList (map (album_dict w) similar_albums)) (SIMILAR_TTL w),
                       RecordResponseTime]
                  (set_cache (similar_key artist album limit)
                     (JList (map (album_dict w) similar_albums)) (SIMILAR_TTL w) s))))"
  by (simp add: similar_miss_def act_defs split: sum.splits option.splits prod.splits)

lemma similar_hit_eq:
  "similar_hit w v s = (comprehension (Album w) v, emits [RecordRequest True] s)"
  by (simp add: similar_hit_def act_defs split: sum.splits)

lemma search_miss_eq:
  "search_miss w query limit s =
     (case search_albums w query limit of
        Inl e \<Rightarrow> (Inl e, emits [RecordRequest False, SearchAlbums query limit] s)
      | Inr results \<Rightarrow>
          (Inr results,
           emits [RecordRequest False, SearchAlbums query limit,
                  SetCache (search_key query limit) (JList (map (result_dict w) results))
                    (SEARCH_TTL w),
                  RecordResponseTime]
             (set_cache (search_key query limit) (JList (map (result_dict w) results))
                (SEARCH_TTL w) s)))"
  by (simp add: search_miss_def act_defs split: sum.splits)

lemma search_hit_eq:
  "search_hit w v s = (comprehension (SearchResult w) v, emits [RecordRequest True] s)"
  by (simp add: search_hit_def act_defs split: sum.splits)

lemma user_miss_eq:
  "user_miss w username s =
     (case get_user_profile w username of
        Inl e \<Rightarrow> (Inl e, emits [RecordRequest False, GetUserProfile username] s)
      | Inr user_profile \<Rightarrow>
          (Inr user_profile,
           emits [RecordRequest False, GetUserProfile username,
                  SetCache (user_key username) (user_dict w user_profile) (USER_TTL w),
                  RecordResponseTime]
             (set_cache (user_key username) (user_dict w user_profile) (USER_TTL w) s)))"
  by (simp add: user_miss_def act_defs split: sum.splits)

lemma user_hit_eq:
  "user_hit w v s = (UserProfile w v, emits [RecordRequest True] s)"
  by (simp add: user_hit_def act_defs split: sum.splits)

lemmas path_eqs = album_miss_eq album_hit_eq similar_miss_eq similar_hit_eq
  search_miss_eq search_hit_eq user_miss_eq user_hit_eq

lemmas endpoint_defs = get_album_endpoint_def get_similar_albums_endpoint_def
  search_albums_endpoint_def get_user_endpoint_def except_http_reraise_def except_all_def
  andThen_def cache_get_def

section \<open>Decimal printing is injective\<close>

lemma of_char_digit: "d < 10 \<Longrightarrow> (of_char (digit_char d) :: nat) = 48 + d"
  by (simp add: digit_char_def)

lemma nat_of_digits_snoc:
  "nat_of_digits (s @ [c]) = 10 * nat_of_digits s + (of_char c - 48)"
  by (simp add: nat_of_digits_def)

lemma nat_of_digits_str_nat: "nat_of_digits (str_nat n) = n"
proof (induction n rule: str_nat.induct)
  case (1 n)
  show ?case
  proof (cases "n < 10")
    case True
    then show ?thesis
      by (subst str_nat.simps) (simp add: nat_of_digits_def of_char_digit)
  next
    case False
    then have "nat_of_digits (str_nat (n div 10)) = n div 10"
      using "1.IH" by simp
    with False show ?thesis
      by (subst str_nat.simps) (simp add: nat_of_digits_snoc of_char_digit)
  qed
qed

lemma str_nat_inj: "str_nat m = str_nat n \<Longrightarrow> m = n"
  by (metis nat_of_digits_str_nat)

lemma str_nat_digits: "c \<in> set (str_nat n) \<Longrightarrow> 48 \<le> (of_char c :: nat) \<and> (of_char c :: nat) \<le> 57"
proof (induction n rule: str_nat.induct)
  case (1 n)
  show ?case
  proof (cases "n < 10")
    case True
    with "1.prems" show ?thesis
      by (subst (asm) str_nat.simps) (auto simp: of_char_digit)
  next
    case False
    with "1.prems" have "c \<in> set (str_nat (n div 10)) \<or> c = digit_char (n mod 10)"
      by (subst (asm) str_nat.simps) auto
    then show ?thesis
    proof
      assume "c \<in> set (str_nat (n div 10))"
      then show ?thesis using "1.IH" False by simp
    next
      assume "c = digit_char (n mod 10)"
      then show ?thesis by (simp add: of_char_digit)
    qed
  qed
qed

lemma str_nat_nonempty: "str_nat n \<noteq> []"
  by (subst str_nat.simps) simp

lemma minus_notin_str_nat: "CHR ''-'' \<notin> set (str_nat n)"
  using str_nat_digits [of "CHR ''-''" n] by auto

lemma colon_notin_str_nat: "CHR '':'' \<notin> set (str_nat n)"
  using str_nat_digits [of "CHR '':''" n] by auto

lemma hd_str_nat: "hd (str_nat n) \<noteq> CHR ''-''"
  using minus_notin_str_nat [of n] str_nat_nonempty [of n] by (metis hd_in_set)

lemma str_int_inj: "str_int i = str_int j \<Longrightarrow> i = j"
proof -
  assume eq: "str_int i = str_int j"
  consider "i < 0" "j < 0" | "i < 0" "\<not> j < 0" | "\<not> i < 0" "j < 0" | "\<not> i < 0" "\<not> j < 0"
    by blast
  then show ?thesis
  proof cases
    case 1
    with eq have "nat (- i) = nat (- j)" by (auto simp: str_int_def dest: str_nat_inj)
    with 1 show ?thesis by simp
  next
    case 2
    with eq have "hd (str_nat (nat j)) = CHR ''-''" by (simp add: str_int_def) (metis list.sel(1))
    then show ?thesis using hd_str_nat by blast
  next
    case 3
    with eq have "hd (str_nat (nat i)) = CHR ''-''" by (simp add: str_int_def) 
    then show ?thesis using hd_str_nat by blast
  next
    case 4
    with eq have "nat i = nat j" by (auto simp: str_int_def dest: str_nat_inj)
    with 4 show ?thesis by simp
  qed
qed

lemma colon_notin_str_int: "CHR '':'' \<notin> set (str_int i)"
  by (simp add: str_int_def colon_notin_str_nat)

section \<open>Cache keys\<close>

lemma length_lower_str [simp]: "length (lower_str s) = length s"
  by (simp add: lower_str_def)

lemma same_case_length: "lower_str a = lower_str b \<Longrightarrow> length a = length b"
  by (metis length_lower_str)

lemma album_key_eq_iff:
  "length artist1 = length artist2 \<Longrightarrow>
   (album_key artist1 album1 = album_key artist2 album2) = (artist1 = artist2 \<and> album1 = album2)"
  by (auto simp: album_key_def)

lemma similar_key_eq_iff:
  "length artist1 = length artist2 \<Longrightarrow> length album1 = length album2 \<Longrightarrow>
   (similar_key artist1 album1 l1 = similar_key artist2 album2 l2) =
     (artist1 = artist2 \<and> album1 = album2 \<and> str_int l1 = str_int l2)"
  by (auto simp: similar_key_def)

lemma split_at_last:
  assumes "xs @ c # ys = xs' @ c # ys'" and "c \<notin> set ys" and "c \<notin> set ys'"
  shows "xs = xs' \<and> ys = ys'"
proof -
  from assms(1) obtain us where
    "(xs = xs' @ us \<and> us @ c # ys = c # ys') \<or> (xs @ us = xs' \<and> c # ys = us @ c # ys')"
    by (auto simp: append_eq_append_conv2)
  then show ?thesis
    using assms(2,3) by (cases us) auto
qed

lemma search_key_inj:
  "search_key q l = search_key q' l' \<Longrightarrow> q = q' \<and> l = l'"
  using split_at_last [of q "CHR '':''" "str_int l" q' "str_int l'"]
  by (auto simp: search_key_def colon_notin_str_int dest: str_int_inj)


lemma other_keys_not_search [simp]:
  "album_key a b \<noteq> search_key q l" "similar_key a b l' \<noteq> search_key q l"
  "user_key u \<noteq> search_key q l"
  by (simp_all add: album_key_def similar_key_def user_key_def search_key_def)

text \<open>
  C1, as stated, fails: the keys are built from the arguments as supplied
  (\<^verbatim>\<open>f"album:{artist}:{album}"\<close>, \<^verbatim>\<open>f"user:{username}"\<close>), with no lower-casing, so two
  lookups that differ only in letter case get different keys, and the second of them
  does not find the record the first one cached: it is a miss and goes to the locator.
\<close>

theorem case_variants_get_different_keys:
  "lower_str ''Radiohead'' = lower_str ''radiohead''
   \<and> album_key ''Radiohead'' ''OK Computer'' \<noteq> album_key ''radiohead'' ''OK Computer''
   \<and> lower_str ''EvryNoise'' = lower_str ''evrynoise''
   \<and> user_key ''EvryNoise'' \<noteq> user_key ''evrynoise''
   \<and> fst (get_album_endpoint demo_world ''Radiohead'' ''OK Computer'' False empty_state)
        = Inr ''OK Computer''
   \<and> events_since
         (snd (get_album_endpoint demo_world ''Radiohead'' ''OK Computer'' False empty_state))
         (snd (get_album_endpoint demo_world ''radiohead'' ''OK Computer'' False
                (snd (get_album_endpoint demo_world ''Radiohead'' ''OK Computer'' False empty_state))))
       = [GetCache ''album:radiohead:OK Computer'', RecordRequest False,
          GetAlbumUrl ''radiohead'' ''OK Computer'']"
  by code_simp

text \<open>
  C1, amended: a cache key is a function of the resource kind and the identifying
  arguments exactly as supplied. For two (artist, album) lookups, or two usernames, that
  differ at most in letter case, the album keys, the similar-albums keys (same limit) and
  the user keys are equal exactly when the arguments are equal character for character;
  lookups that differ in case use different keys and so different cache entries.
\<close>

theorem cache_keys_are_case_sensitive:
  assumes "lower_str artist1 = lower_str artist2" and "lower_str album1 = lower_str album2"
    and "lower_str username1 = lower_str username2"
  shows "(album_key artist1 album1 = album_key artist2 album2) = (artist1 = artist2 \<and> album1 = album2)
       \<and> (similar_key artist1 album1 limit = similar_key artist2 album2 limit)
           = (artist1 = artist2 \<and> album1 = album2)
       \<and> (user_key username1 = user_key username2) = (username1 = username2)"
proof -
  have la: "length artist1 = length artist2" and lb: "length album1 = length album2"
    using assms by (auto dest: same_case_length)
  show ?thesis
    by (simp add: album_key_eq_iff [OF la] similar_key_eq_iff [OF la lb] user_key_def)
qed

theorem cache_keys_are_case_sensitive_witness:
  "lower_str ''Radiohead'' = lower_str ''radiohead''
   \<and> lower_str ''OK Computer'' = lower_str ''ok computer''
   \<and> lower_str ''EvryNoise'' = lower_str ''evrynoise''
   \<and> album_key ''Radiohead'' ''OK Computer'' \<noteq> album_key ''radiohead'' ''ok computer''
   \<and> similar_key ''Radiohead'' ''OK Computer'' 5 \<noteq> similar_key ''radiohead'' ''ok computer'' 5
   \<and> user_key ''EvryNoise'' \<noteq> user_key ''evrynoise''"
proof -
  have a: "lower_str ''Radiohead'' = lower_str ''radiohead''"
    and b: "lower_str ''OK Computer'' = lower_str ''ok computer''"
    and c: "lower_str ''EvryNoise'' = lower_str ''evrynoise''"
    by code_simp+
  show ?thesis
    using a b c cache_keys_are_case_sensitive [OF a b c, of 5] by simp
qed

section \<open>The outbound headers\<close>

lemma HEADERS_names:
  "map fst HEADERS = [''Accept'', ''Accept-Language'', ''User-Agent'']"
  by (simp add: HEADERS_def)

lemma fetch_requests:
  "request \<in> set (snd (fetch site url render timeoutMs)) \<Longrightarrow>
   request = \<lparr>request_url = url, request_headers = HEADERS, rendering = render,
              timeout_ms = timeoutMs\<rparr>"
  by (auto simp: fetch_def Let_def split: sum.splits fetch_failure.splits)

lemma fetch_sends: "snd (fetch site url render timeoutMs) \<noteq> []"
  by (auto simp: fetch_def Let_def split: sum.splits fetch_failure.splits)

text \<open>
  C7: every request the Fetcher presents to the upstream site, whatever the URL, the
  mode, the timeout and the site's answers, and on the retry as on the first attempt,
  carries the header set \<^verbatim>\<open>HEADERS\<close> of \<^verbatim>\<open>config.py\<close>, which consists of exactly the three
  headers Accept, Accept-Language and User-Agent; a fetch sends at least one request.
\<close>

theorem outbound_headers_fixed:
  "snd (fetch site url render timeoutMs) \<noteq> []
   \<and> (\<forall>request \<in> set (snd (fetch site url render timeoutMs)).
         request_headers request = HEADERS
         \<and> map fst (request_headers request) = [''Accept'', ''Accept-Language'', ''User-Agent'']
         \<and> distinct (map fst (request_headers request)))"
proof (intro conjI ballI)
  show "snd (fetch site url render timeoutMs) \<noteq> []"
    by (rule fetch_sends)
next
  fix request
  assume "request \<in> set (snd (fetch site url render timeoutMs))"
  then have h: "request_headers request = HEADERS"
    using fetch_requests by fastforce
  show "request_headers request = HEADERS"
    by (rule h)
  show "map fst (request_headers request) = [''Accept'', ''Accept-Language'', ''User-Agent'']"
    by (simp add: h HEADERS_names)
  show "distinct (map fst (request_headers request))"
    by (simp add: h HEADERS_names)
qed

theorem outbound_headers_fixed_witness:
  "length (snd (fetch flaky_site ''https://www.albumoftheyear.org/search/'' False 30000)) = 2
   \<and> fst (fetch flaky_site ''https://www.albumoftheyear.org/search/'' False 30000)
        = Inr ''<html></html>''
   \<and> map fst (request_headers
         (hd (snd (fetch flaky_site ''https://www.albumoftheyear.org/search/'' False 30000))))
        = [''Accept'', ''Accept-Language'', ''User-Agent'']
   \<and> map fst (request_headers
         (last (snd (fetch flaky_site ''https://www.albumoftheyear.org/search/'' False 30000))))
        = [''Accept'', ''Accept-Language'', ''User-Agent'']"
proof -
  have two: "length (snd (fetch flaky_site ''https://www.albumoftheyear.org/search/'' False 30000)) = 2"
    and got: "fst (fetch flaky_site ''https://www.albumoftheyear.org/search/'' False 30000)
        = Inr ''<html></html>''"
    by (simp_all add: fetch_def flaky_site_def Let_def)
  note fixed = outbound_headers_fixed [of flaky_site "''https://www.albumoftheyear.org/search/''"
      False 30000]
  note sent = fixed [THEN conjunct1]
  note each = fixed [THEN conjunct2, THEN bspec]
  have first: "map fst (request_headers
         (hd (snd (fetch flaky_site ''https://www.albumoftheyear.org/search/'' False 30000))))
        = [''Accept'', ''Accept-Language'', ''User-Agent'']"
    by (rule each [OF hd_in_set [OF sent], THEN conjunct2, THEN conjunct1])
  have retry: "map fst (request_headers
         (last (snd (fetch flaky_site ''https://www.albumoftheyear.org/search/'' False 30000))))
        = [''Accept'', ''Accept-Language'', ''User-Agent'']"
    by (rule each [OF last_in_set [OF sent], THEN conjunct2, THEN conjunct1])
  show ?thesis
    using two got first retry by simp
qed

section \<open>What a request does, path by path\<close>

lemmas ep_splits = sum.splits exn.splits prod.splits if_splits option.splits

lemma album_response_time:
  assumes "get_album_endpoint w artist album refresh s = (r, s')"
  shows "(RecordResponseTime \<in> set (events_since s s')) =
           ((\<exists>v. r = Inr v) \<and> RecordRequest False \<in> set (events_since s s'))
       \<and> (RecordRequest True \<in> set (events_since s s') \<longrightarrow>
            RecordResponseTime \<notin> set (events_since s s'))"
  using assms by (auto simp: endpoint_defs path_eqs split: ep_splits)

lemma similar_response_time:
  assumes "get_similar_albums_endpoint w artist album refresh limit s = (r, s')"
  shows "(RecordResponseTime \<in> set (events_since s s')) =
           ((\<exists>v. r = Inr v) \<and> RecordRequest False \<in> set (events_since s s'))
       \<and> (RecordRequest True \<in> set (events_since s s') \<longrightarrow>
            RecordResponseTime \<notin> set (events_since s s'))"
  using assms by (auto simp: endpoint_defs path_eqs split: ep_splits)

lemma search_response_time:
  assumes "search_albums_endpoint w query limit s = (r, s')"
  shows "(RecordResponseTime \<in> set (events_since s s')) =
           ((\<exists>v. r = Inr v) \<and> RecordRequest False \<in> set (events_since s s'))
       \<and> (RecordRequest True \<in> set (events_since s s') \<longrightarrow>
            RecordResponseTime \<notin> set (events_since s s'))"
  using assms by (auto simp: endpoint_defs path_eqs split: ep_splits)

lemma user_response_time:
  assumes "get_user_endpoint w username refresh s = (r, s')"
  shows "(RecordResponseTime \<in> set (events_since s s')) =
           ((\<exists>v. r = Inr v) \<and> RecordRequest False \<in> set (events_since s s'))
       \<and> (RecordRequest True \<in> set (events_since s s') \<longrightarrow>
            RecordResponseTime \<notin> set (events_since s s'))"
  using assms by (auto simp: endpoint_defs path_eqs split: ep_splits)

lemma album_force_refresh:
  assumes "get_album_endpoint w artist album True s = (r, s')"
  shows "(\<forall>k. GetCache k \<notin> set (events_since s s'))
       \<and> take 2 (events_since s s') = [RecordRequest False, GetAlbumUrl artist album]
       \<and> (\<forall>url an t. get_album_url w artist album = Inr (Some (url, an, t)) \<longrightarrow>
            ScrapeAlbum url an t \<in> set (events_since s s'))
       \<and> (\<forall>v. r = Inr v \<longrightarrow>
            SetCache (album_key artist album) (album_dict w v) (ALBUM_TTL w) \<in> set (events_since s s')
            \<and> (reachable s \<longrightarrow> entries s' (album_key artist album) =
                  Some \<lparr>entry_value = album_dict w v, entry_ttl = ALBUM_TTL w, inserted_at = now s\<rparr>))"
  using assms by (auto simp: endpoint_defs path_eqs entries_set_cache split: ep_splits)

lemma similar_force_refresh:
  assumes "get_similar_albums_endpoint w artist album True limit s = (r, s')"
  shows "(\<forall>k. GetCache k \<notin> set (events_since s s'))
       \<and> take 2 (events_since s s') = [RecordRequest False, GetAlbumUrl artist album]
       \<and> (\<forall>url an t. get_album_url w artist album = Inr (Some (url, an, t)) \<longrightarrow>
            GetSimilarAlbums url limit \<in> set (events_since s s'))
       \<and> (\<forall>v. r = Inr v \<longrightarrow>
            SetCache (similar_key artist album limit) (JList (map (album_dict w) v)) (SIMILAR_TTL w)
              \<in> set (events_since s s')
            \<and> (reachable s \<longrightarrow> entries s' (similar_key artist album limit) =
                  Some \<lparr>entry_value = JList (map (album_dict w) v), entry_ttl = SIMILAR_TTL w,
                        inserted_at = now s\<rparr>))"
  using assms by (auto simp: endpoint_defs path_eqs entries_set_cache split: ep_splits)

lemma user_force_refresh:
  assumes "get_user_endpoint w username True s = (r, s')"
  shows "(\<forall>k. GetCache k \<notin> set (events_since s s'))
       \<and> take 2 (events_since s s') = [RecordRequest False, GetUserProfile username]
       \<and> (\<forall>v. r = Inr v \<longrightarrow>
            SetCache (user_key username) (user_dict w v) (USER_TTL w) \<in> set (events_since s s')
            \<and> (reachable s \<longrightarrow> entries s' (user_key username) =
                  Some \<lparr>entry_value = user_dict w v, entry_ttl = USER_TTL w, inserted_at = now s\<rparr>))"
  using assms by (auto simp: endpoint_defs path_eqs entries_set_cache split: ep_splits)

lemma album_pipeline_error:
  assumes "refresh \<or> \<not> truthy (get_cache s (album_key artist album))"
    and "get_album_url w artist album = Inl e
         \<or> (\<exists>url an t. get_album_url w artist album = Inr (Some (url, an, t))
               \<and> scrape_album w url an t = Inl e)"
    and "get_album_endpoint w artist album refresh s = (r, s')"
  shows "entries s' = entries s \<and> (\<forall>k v t. SetCache k v t \<notin> set (events_since s s'))
       \<and> r = Inl (case e of HTTPException code detail \<Rightarrow> HTTPException code detail
                          | Exception msg \<Rightarrow> HTTPException 503 msg)"
  using assms by (auto simp: endpoint_defs path_eqs split: ep_splits)

lemma similar_pipeline_error:
  assumes "refresh \<or> \<not> truthy (get_cache s (similar_key artist album limit))"
    and "get_album_url w artist album = Inl e
         \<or> (\<exists>url an t. get_album_url w artist album = Inr (Some (url, an, t))
               \<and> get_similar_albums w url limit = Inl e)"
    and "get_similar_albums_endpoint w artist album refresh limit s = (r, s')"
  shows "entries s' = entries s \<and> (\<forall>k v t. SetCache k v t \<notin> set (events_since s s'))
       \<and> r = Inl (case e of HTTPException code detail \<Rightarrow> HTTPException code detail
                          | Exception msg \<Rightarrow> HTTPException 503 msg)"
  using assms by (auto simp: endpoint_defs path_eqs split: ep_splits)

lemma search_pipeline_error:
  assumes "\<not> truthy (get_cache s (search_key query limit))"
    and "search_albums w query limit = Inl e"
    and "search_albums_endpoint w query limit s = (r, s')"
  shows "entries s' = entries s \<and> (\<forall>k v t. SetCache k v t \<notin> set (events_since s s'))
       \<and> r = Inl (HTTPException 503
                    (case e of HTTPException code detail \<Rightarrow> str_HTTPException w code detail
                             | Exception msg \<Rightarrow> msg))"
  using assms by (auto simp: endpoint_defs path_eqs split: ep_splits)

lemma user_pipeline_error:
  assumes "refresh \<or> \<not> truthy (get_cache s (user_key username))"
    and "get_user_profile w username = Inl e"
    and "get_user_endpoint w username refresh s = (r, s')"
  shows "entries s' = entries s \<and> (\<forall>k v t. SetCache k v t \<notin> set (events_since s s'))
       \<and> r = Inl (case e of HTTPException code detail \<Rightarrow> HTTPException code detail
                          | Exception msg \<Rightarrow> HTTPException 503 msg)"
  using assms by (auto simp: endpoint_defs path_eqs split: ep_splits)

lemma album_locator_none:
  assumes "get_album_url w artist album = Inr None"
    and "get_album_endpoint w artist album refresh s = (r, s')"
    and "GetAlbumUrl artist album \<in> set (events_since s s')"
  shows "r = Inl (HTTPException 404 ''Album not found'') \<and> entries s' = entries s
       \<and> (\<forall>url a t. ScrapeAlbum url a t \<notin> set (events_since s s'))
       \<and> (\<forall>k v t. SetCache k v t \<notin> set (events_since s s'))"
  using assms
  by (auto simp: endpoint_defs path_eqs split: sum.splits exn.splits prod.splits if_splits)

lemma similar_locator_none:
  assumes "get_album_url w artist album = Inr None"
    and "get_similar_albums_endpoint w artist album refresh limit s = (r, s')"
    and "GetAlbumUrl artist album \<in> set (events_since s s')"
  shows "r = Inl (HTTPException 404 ''Album not found'') \<and> entries s' = entries s
       \<and> (\<forall>url l. GetSimilarAlbums url l \<notin> set (events_since s s'))
       \<and> (\<forall>k v t. SetCache k v t \<notin> set (events_since s s'))"
  using assms
  by (auto simp: endpoint_defs path_eqs split: sum.splits exn.splits prod.splits if_splits)

section \<open>Album not found\<close>

text \<open>
  C5: whenever an album or similar-albums request asks the locator (\<^verbatim>\<open>get_album_url\<close> is
  among the calls of the request) and the locator resolves no URL (it returns \<^verbatim>\<open>None\<close>),
  the request fails with HTTP 404 "Album not found", no album page is fetched
  (\<^verbatim>\<open>scrape_album\<close>, \<^verbatim>\<open>get_similar_albums\<close> are not called), \<^verbatim>\<open>set_cache\<close> is not called and
  the cache is unchanged.
\<close>

theorem locator_none_gives_404:
  assumes "get_album_url w artist album = Inr None"
  shows "(get_album_endpoint w artist album refresh s = (r, s')
            \<and> GetAlbumUrl artist album \<in> set (events_since s s')
          \<longrightarrow> r = Inl (HTTPException 404 ''Album not found'') \<and> entries s' = entries s
              \<and> (\<forall>url a t. ScrapeAlbum url a t \<notin> set (events_since s s'))
              \<and> (\<forall>k v t. SetCache k v t \<notin> set (events_since s s')))
       \<and> (get_similar_albums_endpoint w artist album refresh limit s = (rs, s'')
            \<and> GetAlbumUrl artist album \<in> set (events_since s s'')
          \<longrightarrow> rs = Inl (HTTPException 404 ''Album not found'') \<and> entries s'' = entries s
              \<and> (\<forall>url l. GetSimilarAlbums url l \<notin> set (events_since s s''))
              \<and> (\<forall>k v t. SetCache k v t \<notin> set (events_since s s'')))"
  using album_locator_none [OF assms] similar_locator_none [OF assms] by blast

theorem locator_none_gives_404_witness:
  "get_album_url demo_world ''Nobody'' ''Nothing'' = Inr None
   \<and> GetAlbumUrl ''Nobody'' ''Nothing''
       \<in> set (events_since empty_state
                 (snd (get_album_endpoint demo_world ''Nobody'' ''Nothing'' False empty_state)))
   \<and> fst (get_album_endpoint demo_world ''Nobody'' ''Nothing'' False empty_state)
       = Inl (HTTPException 404 ''Album not found'')
   \<and> entries (snd (get_album_endpoint demo_world ''Nobody'' ''Nothing'' False empty_state))
       = entries empty_state
   \<and> GetAlbumUrl ''Nobody'' ''Nothing''
       \<in> set (events_since empty_state
                 (snd (get_similar_albums_endpoint demo_world ''Nobody'' ''Nothing'' True 5 empty_state)))
   \<and> fst (get_similar_albums_endpoint demo_world ''Nobody'' ''Nothing'' True 5 empty_state)
       = Inl (HTTPException 404 ''Album not found'')
   \<and> entries (snd (get_similar_albums_endpoint demo_world ''Nobody'' ''Nothing'' True 5 empty_state))
       = entries empty_state"
proof -
  have none: "get_album_url demo_world ''Nobody'' ''Nothing'' = Inr None"
    by code_simp
  have asked: "GetAlbumUrl ''Nobody'' ''Nothing''
       \<in> set (events_since empty_state
                 (snd (get_album_endpoint demo_world ''Nobody'' ''Nothing'' False empty_state)))"
    by code_simp
  have asked': "GetAlbumUrl ''Nobody'' ''Nothing''
       \<in> set (events_since empty_state
                 (snd (get_similar_albums_endpoint demo_world ''Nobody'' ''Nothing'' True 5 empty_state)))"
    by code_simp
  show ?thesis
    using none asked asked'
      locator_none_gives_404 [OF none, where refresh = False and s = empty_state
        and r = "fst (get_album_endpoint demo_world ''Nobody'' ''Nothing'' False empty_state)"
        and s' = "snd (get_album_endpoint demo_world ''Nobody'' ''Nothing'' False empty_state)"]
      locator_none_gives_404 [OF none, where refresh = True and s = empty_state and limit = 5
        and rs = "fst (get_similar_albums_endpoint demo_world ''Nobody'' ''Nothing'' True 5 empty_state)"
        and s'' = "snd (get_similar_albums_endpoint demo_world ''Nobody'' ''Nothing'' True 5 empty_state)"]
    by simp
qed

section \<open>The response-time metric\<close>

text \<open>
  C10: in each of the four endpoints \<^verbatim>\<open>metrics.record_response_time\<close> is called exactly on
  the successful cache-miss path: it is among the calls of a request if and only if the
  request returned a value and was counted as a miss (\<^verbatim>\<open>record_request(cache_hit=False)\<close>);
  a request served from the cache (\<^verbatim>\<open>record_request(cache_hit=True)\<close>) and a request that
  ends in an error never call it. The durations handed over, and the average the metrics
  object computes from them, are outside this model.
\<close>

theorem response_time_only_on_successful_miss:
  "(get_album_endpoint w artist album refresh s = (ra, sa) \<longrightarrow>
      (RecordResponseTime \<in> set (events_since s sa)) =
         ((\<exists>v. ra = Inr v) \<and> RecordRequest False \<in> set (events_since s sa))
      \<and> (RecordRequest True \<in> set (events_since s sa) \<longrightarrow>
            RecordResponseTime \<notin> set (events_since s sa)))
   \<and> (get_similar_albums_endpoint w artist album refresh limit s = (rb, sb) \<longrightarrow>
      (RecordResponseTime \<in> set (events_since s sb)) =
         ((\<exists>v. rb = Inr v) \<and> RecordRequest False \<in> set (events_since s sb))
      \<and> (RecordRequest True \<in> set (events_since s sb) \<longrightarrow>
            RecordResponseTime \<notin> set (events_since s sb)))
   \<and> (search_albums_endpoint w query limit s = (rc, sc) \<longrightarrow>
      (RecordResponseTime \<in> set (events_since s sc)) =
         ((\<exists>v. rc = Inr v) \<and> RecordRequest False \<in> set (events_since s sc))
      \<and> (RecordRequest True \<in> set (events_since s sc) \<longrightarrow>
            RecordResponseTime \<notin> set (events_since s sc)))
   \<and> (get_user_endpoint w username refresh s = (rd, sd) \<longrightarrow>
      (RecordResponseTime \<in> set (events_since s sd)) =
         ((\<exists>v. rd = Inr v) \<and> RecordRequest False \<in> set (events_since s sd))
      \<and> (RecordRequest True \<in> set (events_since s sd) \<longrightarrow>
            RecordResponseTime \<notin> set (events_since s sd)))"
proof -
  note a = album_response_time [of w artist album refresh s ra sa]
  note b = similar_response_time [of w artist album refresh limit s rb sb]
  note c = search_response_time [of w query limit s rc sc]
  note d = user_response_time [of w username refresh s rd sd]
  show ?thesis
    by (rule conjI impI a b c d | assumption)+
qed

theorem response_time_only_on_successful_miss_witness:
  "RecordRequest True \<in> set (events_since cached_state
       (snd (get_album_endpoint demo_world ''Radiohead'' ''OK Computer'' False cached_state)))
   \<and> RecordResponseTime \<notin> set (events_since cached_state
       (snd (get_album_endpoint demo_world ''Radiohead'' ''OK Computer'' False cached_state)))
   \<and> fst (get_similar_albums_endpoint demo_world ''Radiohead'' ''OK Computer'' False 3 cached_state)
       = Inr [''Kid A'', ''The Bends'']
   \<and> RecordResponseTime \<in> set (events_since cached_state
       (snd (get_similar_albums_endpoint demo_world ''Radiohead'' ''OK Computer'' False 3 cached_state)))
   \<and> fst (search_albums_endpoint timeout_world ''Radiohead'' 2 cached_state)
       = Inr [''OK Computer'', ''Kid A'']
   \<and> RecordResponseTime \<in> set (events_since cached_state
       (snd (search_albums_endpoint timeout_world ''Radiohead'' 2 cached_state)))
   \<and> fst (get_user_endpoint demo_world ''ghost'' False cached_state)
       = Inl (HTTPException 404 ''User not found'')
   \<and> RecordResponseTime \<notin> set (events_since cached_state
       (snd (get_user_endpoint demo_world ''ghost'' False cached_state)))"
proof -
  have hit: "RecordRequest True \<in> set (events_since cached_state
       (snd (get_album_endpoint demo_world ''Radiohead'' ''OK Computer'' False cached_state)))"
    by code_simp
  have sim: "fst (get_similar_albums_endpoint demo_world ''Radiohead'' ''OK Computer'' False 3 cached_state)
       = Inr [''Kid A'', ''The Bends'']"
    and sim_miss: "RecordRequest False \<in> set (events_since cached_state
       (snd (get_similar_albums_endpoint demo_world ''Radiohead'' ''OK Computer'' False 3 cached_state)))"
    by code_simp+
  have srch: "fst (search_albums_endpoint timeout_world ''Radiohead'' 2 cached_state)
       = Inr [''OK Computer'', ''Kid A'']"
    and srch_miss: "RecordRequest False \<in> set (events_since cached_state
       (snd (search_albums_endpoint timeout_world ''Radiohead'' 2 cached_state)))"
    by code_simp+
  have usr: "fst (get_user_endpoint demo_world ''ghost'' False cached_state)
       = Inl (HTTPException 404 ''User not found'')"
    by code_simp
  note demo = response_time_only_on_successful_miss [where w = demo_world and s = cached_state
        and artist = "''Radiohead''" and album = "''OK Computer''" and refresh = False
        and ra = "fst (get_album_endpoint demo_world ''Radiohead'' ''OK Computer'' False cached_state)"
        and sa = "snd (get_album_endpoint demo_world ''Radiohead'' ''OK Computer'' False cached_state)"
        and limit = 3
        and rb = "fst (get_similar_albums_endpoint demo_world ''Radiohead'' ''OK Computer'' False 3 cached_state)"
        and sb = "snd (get_similar_albums_endpoint demo_world ''Radiohead'' ''OK Computer'' False 3 cached_state)"
        and username = "''ghost''"
        and rd = "fst (get_user_endpoint demo_world ''ghost'' False cached_state)"
        and sd = "snd (get_user_endpoint demo_world ''ghost'' False cached_state)"]
  note timeout = response_time_only_on_successful_miss [where w = timeout_world and s = cached_state
        and query = "''Radiohead''" and limit = 2
        and rc = "fst (search_albums_endpoint timeout_world ''Radiohead'' 2 cached_state)"
        and sc = "snd (search_albums_endpoint timeout_world ''Radiohead'' 2 cached_state)"]
  note album = demo [THEN conjunct1, THEN mp, OF surjective_pairing]
  note similar = demo [THEN conjunct2, THEN conjunct1, THEN mp, OF surjective_pairing]
  note search = timeout [THEN conjunct2, THEN conjunct2, THEN conjunct1, THEN mp,
      OF surjective_pairing]
  note user = demo [THEN conjunct2, THEN conjunct2, THEN conjunct2, THEN mp,
      OF surjective_pairing]
  have 1: "RecordResponseTime \<notin> set (events_since cached_state
       (snd (get_album_endpoint demo_world ''Radiohead'' ''OK Computer'' False cached_state)))"
    using album [THEN conjunct2, THEN mp, OF hit] .
  have 2: "RecordResponseTime \<in> set (events_since cached_state
       (snd (get_similar_albums_endpoint demo_world ''Radiohead'' ''OK Computer'' False 3 cached_state)))"
    using similar [THEN conjunct1] sim sim_miss by simp
  have 3: "RecordResponseTime \<in> set (events_since cached_state
       (snd (search_albums_endpoint timeout_world ''Radiohead'' 2 cached_state)))"
    using search [THEN conjunct1] srch srch_miss by simp
  have 4: "RecordResponseTime \<notin> set (events_since cached_state
       (snd (get_user_endpoint demo_world ''ghost'' False cached_state)))"
    using user [THEN conjunct1] usr by simp
  show ?thesis
    using hit sim srch usr 1 2 3 4 by simp
qed

section \<open>Force refresh\<close>

text \<open>
  C3, as stated, fails: \<^verbatim>\<open>search_albums_endpoint\<close> takes a query and a limit and nothing
  else, so a search cannot be issued with a force-refresh flag. With a fresh entry under
  its key the search is served from the cache, whatever the upstream listing is now, and
  \<^verbatim>\<open>search_albums\<close> is not called.
\<close>

theorem search_has_no_force_refresh:
  "get_cache cached_state (search_key ''Radiohead'' 10) = JList [demo_dict ''Old'']
   \<and> search_albums demo_world ''Radiohead'' 10 = Inr [''OK Computer'', ''Kid A'', ''The Bends'']
   \<and> fst (search_albums_endpoint demo_world ''Radiohead'' 10 cached_state) = Inr [''Old'']
   \<and> events_since cached_state (snd (search_albums_endpoint demo_world ''Radiohead'' 10 cached_state))
       = [GetCache ''search:Radiohead:10'', RecordRequest True]
   \<and> map_option fst (search_albums_route demo_world ''Radiohead'' None cached_state)
       = Some (Inr [''Old''])"
  by code_simp

text \<open>
  C3, amended: for every album, similar-albums and user lookup issued with \<^verbatim>\<open>refresh\<close> set,
  the cache is not read (no \<^verbatim>\<open>get_cache\<close> call), whether or not a fresh entry exists, and
  the request is counted as a miss and goes to the pipeline (the locator, then the album
  page or the similar-albums listing when the locator found a URL; the profile page for a
  user). When the pipeline returns a result, \<^verbatim>\<open>set_cache\<close> is called with it and, the store
  being reachable, the entry under the key is the fresh result with the kind's TTL,
  inserted now, replacing what was there. The search lookup has no force-refresh input.
\<close>

theorem force_refresh_bypasses_cache:
  "(get_album_endpoint w artist album True s = (ra, sa) \<longrightarrow>
      (\<forall>k. GetCache k \<notin> set (events_since s sa))
      \<and> take 2 (events_since s sa) = [RecordRequest False, GetAlbumUrl artist album]
      \<and> (\<forall>url an t. get_album_url w artist album = Inr (Some (url, an, t)) \<longrightarrow>
            ScrapeAlbum url an t \<in> set (events_since s sa))
      \<and> (\<forall>v. ra = Inr v \<longrightarrow>
            SetCache (album_key artist album) (album_dict w v) (ALBUM_TTL w) \<in> set (events_since s sa)
            \<and> (reachable s \<longrightarrow> entries sa (album_key artist album) =
                  Some \<lparr>entry_value = album_dict w v, entry_ttl = ALBUM_TTL w, inserted_at = now s\<rparr>)))
   \<and> (get_similar_albums_endpoint w artist album True limit s = (rb, sb) \<longrightarrow>
      (\<forall>k. GetCache k \<notin> set (events_since s sb))
      \<and> take 2 (events_since s sb) = [RecordRequest False, GetAlbumUrl artist album]
      \<and> (\<forall>url an t. get_album_url w artist album = Inr (Some (url, an, t)) \<longrightarrow>
            GetSimilarAlbums url limit \<in> set (events_since s sb))
      \<and> (\<forall>v. rb = Inr v \<longrightarrow>
            SetCache (similar_key artist album limit) (JList (map (album_dict w) v)) (SIMILAR_TTL w)
              \<in> set (events_since s sb)
            \<and> (reachable s \<longrightarrow> entries sb (similar_key artist album limit) =
                  Some \<lparr>entry_value = JList (map (album_dict w) v), entry_ttl = SIMILAR_TTL w,
                        inserted_at = now s\<rparr>)))
   \<and> (get_user_endpoint w username True s = (rc, sc) \<longrightarrow>
      (\<forall>k. GetCache k \<notin> set (events_since s sc))
      \<and> take 2 (events_since s sc) = [RecordRequest False, GetUserProfile username]
      \<and> (\<forall>v. rc = Inr v \<longrightarrow>
            SetCache (user_key username) (user_dict w v) (USER_TTL w) \<in> set (events_since s sc)
            \<and> (reachable s \<longrightarrow> entries sc (user_key username) =
                  Some \<lparr>entry_value = user_dict w v, entry_ttl = USER_TTL w, inserted_at = now s\<rparr>)))"
proof -
  note a = album_force_refresh [of w artist album s ra sa]
  note b = similar_force_refresh [of w artist album limit s rb sb]
  note c = user_force_refresh [of w username s rc sc]
  show ?thesis
    by (rule conjI impI a b c | assumption)+
qed

theorem force_refresh_bypasses_cache_witness:
  "truthy (get_cache cached_state (album_key ''Radiohead'' ''OK Computer''))
   \<and> reachable cached_state
   \<and> fst (get_album_endpoint demo_world ''Radiohead'' ''OK Computer'' True cached_state)
        = Inr ''OK Computer''
   \<and> get_album_url demo_world ''Radiohead'' ''OK Computer''
        = Inr (Some (''/album/1'', ''Radiohead'', ''OK Computer''))
   \<and> (\<forall>k. GetCache k \<notin> set (events_since cached_state
        (snd (get_album_endpoint demo_world ''Radiohead'' ''OK Computer'' True cached_state))))
   \<and> ScrapeAlbum ''/album/1'' ''Radiohead'' ''OK Computer'' \<in> set (events_since cached_state
        (snd (get_album_endpoint demo_world ''Radiohead'' ''OK Computer'' True cached_state)))
   \<and> entries (snd (get_album_endpoint demo_world ''Radiohead'' ''OK Computer'' True cached_state))
        (album_key ''Radiohead'' ''OK Computer'')
        = Some \<lparr>entry_value = demo_dict ''OK Computer'', entry_ttl = 3600, inserted_at = 100\<rparr>
   \<and> fst (get_similar_albums_endpoint demo_world ''Radiohead'' ''OK Computer'' True 5 cached_state)
        = Inr [''Kid A'', ''The Bends'']
   \<and> entries (snd (get_similar_albums_endpoint demo_world ''Radiohead'' ''OK Computer'' True 5 cached_state))
        (similar_key ''Radiohead'' ''OK Computer'' 5)
        = Some \<lparr>entry_value = JList [demo_dict ''Kid A'', demo_dict ''The Bends''],
                 entry_ttl = 7200, inserted_at = 100\<rparr>
   \<and> fst (get_user_endpoint demo_world ''evrynoiseatonce'' True cached_state)
        = Inr ''evrynoiseatonce''
   \<and> entries (snd (get_user_endpoint demo_world ''evrynoiseatonce'' True cached_state))
        (user_key ''evrynoiseatonce'')
        = Some \<lparr>entry_value = demo_dict ''evrynoiseatonce'', entry_ttl = 600, inserted_at = 100\<rparr>"
proof -
  note demo = force_refresh_bypasses_cache [where w = demo_world and s = cached_state
      and artist = "''Radiohead''" and album = "''OK Computer''" and limit = 5
      and username = "''evrynoiseatonce''"
      and ra = "fst (get_album_endpoint demo_world ''Radiohead'' ''OK Computer'' True cached_state)"
      and sa = "snd (get_album_endpoint demo_world ''Radiohead'' ''OK Computer'' True cached_state)"
      and rb = "fst (get_similar_albums_endpoint demo_world ''Radiohead'' ''OK Computer'' True 5 cached_state)"
      and sb = "snd (get_similar_albums_endpoint demo_world ''Radiohead'' ''OK Computer'' True 5 cached_state)"
      and rc = "fst (get_user_endpoint demo_world ''evrynoiseatonce'' True cached_state)"
      and sc = "snd (get_user_endpoint demo_world ''evrynoiseatonce'' True cached_state)"]
  note album = demo [THEN conjunct1, THEN mp, OF surjective_pairing]
  note similar = demo [THEN conjunct2, THEN conjunct1, THEN mp, OF surjective_pairing]
  note user = demo [THEN conjunct2, THEN conjunct2, THEN mp, OF surjective_pairing]
  have fresh: "truthy (get_cache cached_state (album_key ''Radiohead'' ''OK Computer''))"
    and up: "reachable cached_state"
    and ra: "fst (get_album_endpoint demo_world ''Radiohead'' ''OK Computer'' True cached_state)
        = Inr ''OK Computer''"
    and url: "get_album_url demo_world ''Radiohead'' ''OK Computer''
        = Inr (Some (''/album/1'', ''Radiohead'', ''OK Computer''))"
    and rb: "fst (get_similar_albums_endpoint demo_world ''Radiohead'' ''OK Computer'' True 5 cached_state)
        = Inr [''Kid A'', ''The Bends'']"
    and rc: "fst (get_user_endpoint demo_world ''evrynoiseatonce'' True cached_state)
        = Inr ''evrynoiseatonce''"
    by code_simp+
  have cs: "album_dict demo_world = demo_dict" "ALBUM_TTL demo_world = 3600"
    "user_dict demo_world = demo_dict" "USER_TTL demo_world = 600" "SIMILAR_TTL demo_world = 7200"
    "now cached_state = 100"
    by (simp_all add: demo_world_def cached_state_def)
  have 1: "\<forall>k. GetCache k \<notin> set (events_since cached_state
        (snd (get_album_endpoint demo_world ''Radiohead'' ''OK Computer'' True cached_state)))"
    using album [THEN conjunct1] .
  have 2: "ScrapeAlbum ''/album/1'' ''Radiohead'' ''OK Computer'' \<in> set (events_since cached_state
        (snd (get_album_endpoint demo_world ''Radiohead'' ''OK Computer'' True cached_state)))"
    using album [THEN conjunct2, THEN conjunct2, THEN conjunct1] url by blast
  have 3: "entries (snd (get_album_endpoint demo_world ''Radiohead'' ''OK Computer'' True cached_state))
        (album_key ''Radiohead'' ''OK Computer'')
        = Some \<lparr>entry_value = demo_dict ''OK Computer'', entry_ttl = 3600, inserted_at = 100\<rparr>"
    using album [THEN conjunct2, THEN conjunct2, THEN conjunct2] ra up cs by simp
  have 4: "entries (snd (get_similar_albums_endpoint demo_world ''Radiohead'' ''OK Computer'' True 5 cached_state))
        (similar_key ''Radiohead'' ''OK Computer'' 5)
        = Some \<lparr>entry_value = JList [demo_dict ''Kid A'', demo_dict ''The Bends''],
                 entry_ttl = 7200, inserted_at = 100\<rparr>"
    using similar [THEN conjunct2, THEN conjunct2, THEN conjunct2] rb up cs by simp
  have 5: "entries (snd (get_user_endpoint demo_world ''evrynoiseatonce'' True cached_state))
        (user_key ''evrynoiseatonce'')
        = Some \<lparr>entry_value = demo_dict ''evrynoiseatonce'', entry_ttl = 600, inserted_at = 100\<rparr>"
    using user [THEN conjunct2, THEN conjunct2] rc up cs by simp
  show ?thesis
    using fresh up ra url rb rc 1 2 3 4 5 by simp
qed

section \<open>Errors of the pipeline\<close>

text \<open>
  C8, as stated, fails in its last part: the album, similar-albums and user endpoints
  re-raise an \<^verbatim>\<open>HTTPException\<close> unchanged (\<^verbatim>\<open>except HTTPException: raise\<close>). The user
  endpoint raises none itself and documents a 404 "User not found" response, which can
  only come from \<^verbatim>\<open>get_user_profile\<close>; such an error after a cache miss reaches the caller
  as 404, not 503.
\<close>

theorem pipeline_http_exception_keeps_its_status:
  "\<not> truthy (get_cache empty_state (user_key ''ghost''))
   \<and> get_user_profile demo_world ''ghost'' = Inl (HTTPException 404 ''User not found'')
   \<and> fst (get_user_endpoint demo_world ''ghost'' False empty_state)
       = Inl (HTTPException 404 ''User not found'')"
  by code_simp

text \<open>
  C8, amended: for every request that takes the miss path (no true cached value, or
  \<^verbatim>\<open>refresh\<close> set) and on which a scraper call raises, \<^verbatim>\<open>set_cache\<close> is not called and the
  cache is unchanged; the error is surfaced as a 503 carrying the exception's message,
  except that an \<^verbatim>\<open>HTTPException\<close> raised by the scraper in the album, similar-albums
  and user lookups is surfaced unchanged, with its own status. In the search lookup
  every exception becomes a 503.
\<close>

theorem pipeline_error_leaves_cache_unchanged:
  "((refresh \<or> \<not> truthy (get_cache s (album_key artist album)))
      \<and> (get_album_url w artist album = Inl e
          \<or> (\<exists>url an t. get_album_url w artist album = Inr (Some (url, an, t))
                \<and> scrape_album w url an t = Inl e))
      \<and> get_album_endpoint w artist album refresh s = (ra, sa)
     \<longrightarrow> entries sa = entries s \<and> (\<forall>k v t. SetCache k v t \<notin> set (events_since s sa))
         \<and> ra = Inl (case e of HTTPException code detail \<Rightarrow> HTTPException code detail
                             | Exception msg \<Rightarrow> HTTPException 503 msg))
   \<and> ((refresh \<or> \<not> truthy (get_cache s (similar_key artist album limit)))
      \<and> (get_album_url w artist album = Inl e
          \<or> (\<exists>url an t. get_album_url w artist album = Inr (Some (url, an, t))
                \<and> get_similar_albums w url limit = Inl e))
      \<and> get_similar_albums_endpoint w artist album refresh limit s = (rb, sb)
     \<longrightarrow> entries sb = entries s \<and> (\<forall>k v t. SetCache k v t \<notin> set (events_since s sb))
         \<and> rb = Inl (case e of HTTPException code detail \<Rightarrow> HTTPException code detail
                             | Exception msg \<Rightarrow> HTTPException 503 msg))
   \<and> (\<not> truthy (get_cache s (search_key query limit))
      \<and> search_albums w query limit = Inl e
      \<and> search_albums_endpoint w query limit s = (rc, sc)
     \<longrightarrow> entries sc = entries s \<and> (\<forall>k v t. SetCache k v t \<notin> set (events_since s sc))
         \<and> rc = Inl (HTTPException 503
                       (case e of HTTPException code detail \<Rightarrow> str_HTTPException w code detail
                                | Exception msg \<Rightarrow> msg)))
   \<and> ((refresh \<or> \<not> truthy (get_cache s (user_key username)))
      \<and> get_user_profile w username = Inl e
      \<and> get_user_endpoint w username refresh s = (rd, sd)
     \<longrightarrow> entries sd = entries s \<and> (\<forall>k v t. SetCache k v t \<notin> set (events_since s sd))
         \<and> rd = Inl (case e of HTTPException code detail \<Rightarrow> HTTPException code detail
                             | Exception msg \<Rightarrow> HTTPException 503 msg))"
proof -
  note a = album_pipeline_error [of refresh s artist album w e ra sa]
  note b = similar_pipeline_error [of refresh s artist album limit w e rb sb]
  note c = search_pipeline_error [of s query limit w e rc sc]
  note d = user_pipeline_error [of refresh s username w e rd sd]
  have A: "A \<and> B \<and> C \<longrightarrow> Q" if "A \<Longrightarrow> B \<Longrightarrow> C \<Longrightarrow> Q" for A B C Q
    using that by blast
  show ?thesis
    by (intro conjI; rule A; (rule a | rule b | rule c | rule d); assumption)
qed

theorem pipeline_error_leaves_cache_unchanged_witness:
  "\<not> truthy (get_cache empty_state (album_key ''Radiohead'' ''OK Computer''))
   \<and> get_album_url timeout_world ''Radiohead'' ''OK Computer''
        = Inr (Some (''/album/1'', ''Radiohead'', ''OK Computer''))
   \<and> scrape_album timeout_world ''/album/1'' ''Radiohead'' ''OK Computer''
        = Inl (Exception ''Timeout 30000ms exceeded'')
   \<and> entries (snd (get_album_endpoint timeout_world ''Radiohead'' ''OK Computer'' False empty_state))
        = entries empty_state
   \<and> fst (get_album_endpoint timeout_world ''Radiohead'' ''OK Computer'' False empty_state)
        = Inl (HTTPException 503 ''Timeout 30000ms exceeded'')
   \<and> \<not> truthy (get_cache empty_state (user_key ''ghost''))
   \<and> get_user_profile demo_world ''ghost'' = Inl (HTTPException 404 ''User not found'')
   \<and> entries (snd (get_user_endpoint demo_world ''ghost'' False empty_state)) = entries empty_state
   \<and> fst (get_user_endpoint demo_world ''ghost'' False empty_state)
        = Inl (HTTPException 404 ''User not found'')"
proof -
  have miss: "\<not> truthy (get_cache empty_state (album_key ''Radiohead'' ''OK Computer''))"
    and url: "get_album_url timeout_world ''Radiohead'' ''OK Computer''
        = Inr (Some (''/album/1'', ''Radiohead'', ''OK Computer''))"
    and scrape: "scrape_album timeout_world ''/album/1'' ''Radiohead'' ''OK Computer''
        = Inl (Exception ''Timeout 30000ms exceeded'')"
    and miss': "\<not> truthy (get_cache empty_state (user_key ''ghost''))"
    and profile: "get_user_profile demo_world ''ghost'' = Inl (HTTPException 404 ''User not found'')"
    by code_simp+
  note album = pipeline_error_leaves_cache_unchanged [
      where w = timeout_world and s = empty_state and refresh = False
        and artist = "''Radiohead''" and album = "''OK Computer''"
        and e = "Exception ''Timeout 30000ms exceeded''"
        and ra = "fst (get_album_endpoint timeout_world ''Radiohead'' ''OK Computer'' False empty_state)"
        and sa = "snd (get_album_endpoint timeout_world ''Radiohead'' ''OK Computer'' False empty_state)",
      THEN conjunct1, THEN mp]
  note user = pipeline_error_leaves_cache_unchanged [
      where w = demo_world and s = empty_state and refresh = False and username = "''ghost''"
        and e = "HTTPException 404 ''User not found''"
        and rd = "fst (get_user_endpoint demo_world ''ghost'' False empty_state)"
        and sd = "snd (get_user_endpoint demo_world ''ghost'' False empty_state)",
      THEN conjunct2, THEN conjunct2, THEN conjunct2, THEN mp]
  have 1: "entries (snd (get_album_endpoint timeout_world ''Radiohead'' ''OK Computer'' False empty_state))
        = entries empty_state
     \<and> fst (get_album_endpoint timeout_world ''Radiohead'' ''OK Computer'' False empty_state)
        = Inl (HTTPException 503 ''Timeout 30000ms exceeded'')"
    using album miss url scrape by simp
  have 2: "entries (snd (get_user_endpoint demo_world ''ghost'' False empty_state)) = entries empty_state
     \<and> fst (get_user_endpoint demo_world ''ghost'' False empty_state)
        = Inl (HTTPException 404 ''User not found'')"
    using user miss' profile by simp
  show ?thesis
    using miss url scrape miss' profile 1 2 by simp
qed

section \<open>The limit in the similar-albums key\<close>


lemma get_cache_absent: "entries s k = None \<Longrightarrow> get_cache s k = JNull"
  by (simp add: get_cache_def)




section \<open>The search limit\<close>

lemma traverse_round_trip:
  "(\<And>r. C (d r) = Inr r) \<Longrightarrow> traverse C (map d xs) = Inr xs"
  by (induction xs) simp_all

lemma comprehension_round_trip:
  "results_round_trip w \<Longrightarrow>
   comprehension (SearchResult w) (JList (map (result_dict w) xs)) = Inr xs"
  by (simp add: comprehension_def results_round_trip_def traverse_round_trip)

lemma search_albums_spec_prefix:
  "search_albums_spec upstream query limit = Inr results \<Longrightarrow>
   \<exists>listing. upstream query = Inr listing \<and> results = take (nat limit) listing"
  by (auto simp: search_albums_spec_def split: sum.splits)

lemma truthy_cached_is_entry:
  "truthy (get_cache s k) \<Longrightarrow> \<exists>e. entries s k = Some e \<and> entry_value e = get_cache s k"
  by (auto simp: get_cache_def split: if_splits option.splits)

lemma from_upstream_empty: "search_entries_from_upstream w upstream empty_state"
  by (simp add: search_entries_from_upstream_def empty_state_def)

lemma from_upstream_emits [simp]:
  "search_entries_from_upstream w upstream (emits evs s) = search_entries_from_upstream w upstream s"
  by (simp add: search_entries_from_upstream_def)

lemma from_upstream_set_other:
  assumes "search_entries_from_upstream w upstream s" and "\<And>q l. k \<noteq> search_key q l"
  shows "search_entries_from_upstream w upstream (set_cache k v t s)"
proof -
  have "entries (set_cache k v t s) (search_key q l) = entries s (search_key q l)" for q l
    using assms(2) [of q l] by (auto simp: set_cache_def)
  then show ?thesis
    using assms(1) by (simp add: search_entries_from_upstream_def)
qed

lemma from_upstream_set_search:
  assumes "search_entries_from_upstream w upstream s" and "upstream query = Inr listing"
  shows "search_entries_from_upstream w upstream
           (set_cache (search_key query limit)
              (JList (map (result_dict w) (take (nat limit) listing))) t s)"
  using assms
  by (auto simp: search_entries_from_upstream_def set_cache_def dest: search_key_inj)

lemma album_keeps_from_upstream:
  "search_entries_from_upstream w upstream s \<Longrightarrow>
   get_album_endpoint w artist album refresh s = (r, s') \<Longrightarrow>
   search_entries_from_upstream w upstream s'"
  by (auto simp: endpoint_defs path_eqs from_upstream_set_other split: ep_splits)

lemma similar_keeps_from_upstream:
  "search_entries_from_upstream w upstream s \<Longrightarrow>
   get_similar_albums_endpoint w artist album refresh limit s = (r, s') \<Longrightarrow>
   search_entries_from_upstream w upstream s'"
  by (auto simp: endpoint_defs path_eqs from_upstream_set_other split: ep_splits)

lemma user_keeps_from_upstream:
  "search_entries_from_upstream w upstream s \<Longrightarrow>
   get_user_endpoint w username refresh s = (r, s') \<Longrightarrow>
   search_entries_from_upstream w upstream s'"
  by (auto simp: endpoint_defs path_eqs from_upstream_set_other split: ep_splits)

lemma search_keeps_from_upstream:
  assumes "search_albums w = search_albums_spec upstream"
    and "search_entries_from_upstream w upstream s"
    and "search_albums_endpoint w query limit s = (r, s')"
  shows "search_entries_from_upstream w upstream s'"
proof (cases "truthy (get_cache s (search_key query limit))")
  case True
  with assms(3) have "entries s' = entries s"
    by (auto simp: endpoint_defs path_eqs split: ep_splits)
  with assms(2) show ?thesis
    by (simp add: search_entries_from_upstream_def)
next
  case False
  show ?thesis
  proof (cases "search_albums w query limit")
    case (Inl e)
    with False assms(3) have "entries s' = entries s"
      by (auto simp: endpoint_defs path_eqs split: ep_splits)
    with assms(2) show ?thesis
      by (simp add: search_entries_from_upstream_def)
  next
    case (Inr results)
    then obtain listing where listing: "upstream query = Inr listing"
      "results = take (nat limit) listing"
      using search_albums_spec_prefix [of upstream query limit results] by (auto simp: assms(1))
    from False Inr assms(3) have "s' = emits [GetCache (search_key query limit),
          RecordRequest False, SearchAlbums query limit,
          SetCache (search_key query limit) (JList (map (result_dict w) results)) (SEARCH_TTL w),
          RecordResponseTime]
          (set_cache (search_key query limit) (JList (map (result_dict w) results))
             (SEARCH_TTL w) s)"
      by (auto simp: endpoint_defs path_eqs split: ep_splits)
    then show ?thesis
      using from_upstream_set_search [OF assms(2) listing(1), of limit "SEARCH_TTL w"] listing(2)
      by simp
  qed
qed

lemma search_result_from_upstream:
  assumes "search_albums w = search_albums_spec upstream" and "results_round_trip w"
    and "search_entries_from_upstream w upstream s"
    and "search_albums_endpoint w query limit s = (Inr results, s')"
  shows "\<exists>listing. upstream query = Inr listing \<and> results = take (nat limit) listing"
proof (cases "truthy (get_cache s (search_key query limit))")
  case True
  then obtain e where e: "entries s (search_key query limit) = Some e"
    "entry_value e = get_cache s (search_key query limit)"
    using truthy_cached_is_entry by blast
  with assms(3) obtain listing where listing: "upstream query = Inr listing"
    "get_cache s (search_key query limit) = JList (map (result_dict w) (take (nat limit) listing))"
    unfolding search_entries_from_upstream_def by metis
  from True assms(4) have
    "comprehension (SearchResult w) (get_cache s (search_key query limit)) = Inr results"
    by (auto simp: endpoint_defs path_eqs split: ep_splits)
  then have "results = take (nat limit) listing"
    by (simp add: listing(2) comprehension_round_trip [OF assms(2)])
  with listing(1) show ?thesis by blast
next
  case False
  with assms(4) have "search_albums w query limit = Inr results"
    by (auto simp: endpoint_defs path_eqs split: ep_splits)
  then show ?thesis
    using search_albums_spec_prefix [of upstream query limit results] by (simp add: assms(1))
qed

text \<open>
  C6: the search limit is bounded to 1..20: a request whose limit (10 when absent) is
  outside that range is rejected before the endpoint runs. With \<^verbatim>\<open>search_albums\<close> and the
  models as the spec describes them, and a cache whose search entries were written by
  this endpoint, every accepted search that returns a list, from the scraper or from the
  cache, returns the first \<open>limit\<close> entries of the upstream listing in the listing's
  order, hence at most \<open>limit\<close> entries. The cache keeps its property.
\<close>

theorem search_results_bounded_by_limit:
  assumes "search_albums w = search_albums_spec upstream" and "results_round_trip w"
    and "search_entries_from_upstream w upstream s"
    and "limit = (case limit_param of None \<Rightarrow> 10 | Some l \<Rightarrow> l)"
  shows "(search_albums_route w query limit_param s = None) = (limit < 1 \<or> 20 < limit)
       \<and> (search_albums_route w query limit_param s = Some (Inr results, s') \<longrightarrow>
            1 \<le> limit \<and> limit \<le> 20 \<and> length results \<le> nat limit
            \<and> (\<exists>listing. upstream query = Inr listing \<and> results = take (nat limit) listing)
            \<and> search_entries_from_upstream w upstream s')"
proof -
  have route: "search_albums_route w query limit_param s =
      (if 1 \<le> limit \<and> limit \<le> 20 then Some (search_albums_endpoint w query limit s) else None)"
    by (simp add: search_albums_route_def assms(4) Let_def)
  have none: "(search_albums_route w query limit_param s = None) = (limit < 1 \<or> 20 < limit)"
    by (auto simp: route)
  have some: "1 \<le> limit \<and> limit \<le> 20 \<and> length results \<le> nat limit
            \<and> (\<exists>listing. upstream query = Inr listing \<and> results = take (nat limit) listing)
            \<and> search_entries_from_upstream w upstream s'"
    if "search_albums_route w query limit_param s = Some (Inr results, s')"
  proof -
    from that have range: "1 \<le> limit \<and> limit \<le> 20"
      and run: "search_albums_endpoint w query limit s = (Inr results, s')"
      by (simp_all add: route split: if_splits)
    from search_result_from_upstream [OF assms(1,2,3) run] obtain listing where
      listing: "upstream query = Inr listing" "results = take (nat limit) listing"
      by blast
    then have "length results \<le> nat limit" by simp
    with range listing search_keeps_from_upstream [OF assms(1,3) run] show ?thesis
      by blast
  qed
  show ?thesis
    using none some by blast
qed

theorem search_results_bounded_by_limit_witness:
  "search_albums demo_world = search_albums_spec demo_upstream
   \<and> results_round_trip demo_world
   \<and> search_entries_from_upstream demo_world demo_upstream empty_state
   \<and> search_albums_route demo_world ''Radiohead'' (Some 21) empty_state = None
   \<and> search_albums_route demo_world ''Radiohead'' (Some 0) empty_state = None
   \<and> search_entries_from_upstream demo_world demo_upstream
        (snd (search_albums_endpoint demo_world ''Radiohead'' 2 empty_state))
   \<and> RecordRequest True \<in> set (events_since
        (snd (search_albums_endpoint demo_world ''Radiohead'' 2 empty_state))
        (snd (search_albums_endpoint demo_world ''Radiohead'' 2
               (snd (search_albums_endpoint demo_world ''Radiohead'' 2 empty_state)))))
   \<and> map_option fst (search_albums_route demo_world ''Radiohead'' (Some 2)
        (snd (search_albums_endpoint demo_world ''Radiohead'' 2 empty_state)))
        = Some (Inr [''OK Computer'', ''Kid A''])
   \<and> length [''OK Computer'', ''Kid A''] \<le> nat 2
   \<and> (\<exists>listing. demo_upstream ''Radiohead'' = Inr listing
         \<and> [''OK Computer'', ''Kid A''] = take (nat 2) listing)"
proof -
  have spec: "search_albums demo_world = search_albums_spec demo_upstream"
    by (simp add: demo_world_def)
  have trip: "results_round_trip demo_world"
    by (simp add: results_round_trip_def demo_world_def demo_dict_def)
  note empty = from_upstream_empty [of demo_world demo_upstream]
  have first: "fst (search_albums_endpoint demo_world ''Radiohead'' 2 empty_state)
        = Inr [''OK Computer'', ''Kid A'']"
    and second: "fst (search_albums_endpoint demo_world ''Radiohead'' 2
               (snd (search_albums_endpoint demo_world ''Radiohead'' 2 empty_state)))
        = Inr [''OK Computer'', ''Kid A'']"
    and hit: "RecordRequest True \<in> set (events_since
        (snd (search_albums_endpoint demo_world ''Radiohead'' 2 empty_state))
        (snd (search_albums_endpoint demo_world ''Radiohead'' 2
               (snd (search_albums_endpoint demo_world ''Radiohead'' 2 empty_state)))))"
    by code_simp+
  have route1: "search_albums_route demo_world ''Radiohead'' (Some 2) empty_state
        = Some (Inr [''OK Computer'', ''Kid A''],
                snd (search_albums_endpoint demo_world ''Radiohead'' 2 empty_state))"
    using first by (simp add: search_albums_route_def prod_eq_iff Let_def)
  have route2: "search_albums_route demo_world ''Radiohead'' (Some 2)
          (snd (search_albums_endpoint demo_world ''Radiohead'' 2 empty_state))
        = Some (Inr [''OK Computer'', ''Kid A''],
                snd (search_albums_endpoint demo_world ''Radiohead'' 2
                  (snd (search_albums_endpoint demo_world ''Radiohead'' 2 empty_state))))"
    using second by (simp add: search_albums_route_def prod_eq_iff Let_def)
  have 1: "search_albums_route demo_world ''Radiohead'' (Some 21) empty_state = None"
    using search_results_bounded_by_limit [OF spec trip empty,
      where limit = 21 and limit_param = "Some 21" and query = "''Radiohead''", THEN conjunct1]
    by simp
  have 2: "search_albums_route demo_world ''Radiohead'' (Some 0) empty_state = None"
    using search_results_bounded_by_limit [OF spec trip empty,
      where limit = 0 and limit_param = "Some 0" and query = "''Radiohead''", THEN conjunct1]
    by simp
  have kept: "search_entries_from_upstream demo_world demo_upstream
        (snd (search_albums_endpoint demo_world ''Radiohead'' 2 empty_state))"
    using search_results_bounded_by_limit [OF spec trip empty,
      where limit = 2 and limit_param = "Some 2" and query = "''Radiohead''"
        and results = "[''OK Computer'', ''Kid A'']"
        and s' = "snd (search_albums_endpoint demo_world ''Radiohead'' 2 empty_state)",
      THEN conjunct2, THEN mp, OF _ route1]
    by simp
  have 3: "length [''OK Computer'', ''Kid A''] \<le> nat 2
     \<and> (\<exists>listing. demo_upstream ''Radiohead'' = Inr listing
           \<and> [''OK Computer'', ''Kid A''] = take (nat 2) listing)"
    using search_results_bounded_by_limit [OF spec trip kept,
      where limit = 2 and limit_param = "Some 2" and query = "''Radiohead''"
        and results = "[''OK Computer'', ''Kid A'']"
        and s' = "snd (search_albums_endpoint demo_world ''Radiohead'' 2
                  (snd (search_albums_endpoint demo_world ''Radiohead'' 2 empty_state)))",
      THEN conjunct2, THEN mp, OF _ route2]
    by simp
  show ?thesis
    using spec trip empty 1 2 kept hit route2 3 by simp
qed

section \<open>Failures as the API layer sees them\<close>

lemma reworded_fields [simp]:
  "get_album_url (reworded f w) a b = reword f (get_album_url w a b)"
  "scrape_album (reworded f w) url an t = reword f (scrape_album w url an t)"
  "get_similar_albums (reworded f w) url l = reword f (get_similar_albums w url l)"
  "search_albums (reworded f w) q l = reword f (search_albums w q l)"
  "get_user_profile (reworded f w) u = reword f (get_user_profile w u)"
  "Album (reworded f w) = (\<lambda>v. reword f (Album w v))"
  "UserProfile (reworded f w) = (\<lambda>v. reword f (UserProfile w v))"
  "SearchResult (reworded f w) = (\<lambda>v. reword f (SearchResult w v))"
  "str_HTTPException (reworded f w) = str_HTTPException w"
  by (simp_all add: reworded_def)

lemma reword_simps [simp]:
  "reword f (Inr x) = Inr x" "reword f (Inl e) = Inl (reword_exn f e)"
  by (simp_all add: reword_def)


lemma exn_case_reword [simp]:
  "(case reword_exn f e of HTTPException code detail \<Rightarrow> h code | Exception msg \<Rightarrow> b) =
   (case e of HTTPException code detail \<Rightarrow> h code | Exception msg \<Rightarrow> b)"
  by (cases e) simp_all

lemma status_reword [simp]: "response_status (reword f r) = response_status r"
  by (cases r rule: response_status.cases) simp_all

lemma is_Inr_reword: "(\<exists>x. reword f r = Inr x) = (\<exists>x. r = Inr x)"
  by (cases r) simp_all













lemma tagged_not_plain [simp]: "\<not> tagged status_of (Exception msg)"
  by (simp add: tagged_def)








section \<open>Cache hits\<close>

text \<open>
  A cached value that Python counts as true is served without any scraper call and
  without a cache write: the response is the model built from it, or the error of
  building it.
\<close>

lemma album_true_cached_value_served:
  assumes "\<not> refresh" and "truthy (get_cache s (album_key artist album))"
    and "get_album_endpoint w artist album refresh s = (r, s')"
  shows "entries s' = entries s
       \<and> set (events_since s s')
            \<subseteq> {GetCache (album_key artist album), RecordRequest True, RecordError}
       \<and> r = (case Album w (get_cache s (album_key artist album)) of
                  Inr v \<Rightarrow> Inr v
                | Inl (HTTPException code detail) \<Rightarrow> Inl (HTTPException code detail)
                | Inl (Exception msg) \<Rightarrow> Inl (HTTPException 503 msg))"
  using assms by (auto simp: endpoint_defs path_eqs split: ep_splits)

lemma similar_true_cached_value_served:
  assumes "\<not> refresh" and "truthy (get_cache s (similar_key artist album limit))"
    and "get_similar_albums_endpoint w artist album refresh limit s = (r, s')"
  shows "entries s' = entries s
       \<and> set (events_since s s')
            \<subseteq> {GetCache (similar_key artist album limit), RecordRequest True, RecordError}
       \<and> r = (case comprehension (Album w) (get_cache s (similar_key artist album limit)) of
                  Inr v \<Rightarrow> Inr v
                | Inl (HTTPException code detail) \<Rightarrow> Inl (HTTPException code detail)
                | Inl (Exception msg) \<Rightarrow> Inl (HTTPException 503 msg))"
  using assms by (auto simp: endpoint_defs path_eqs split: ep_splits)

lemma search_true_cached_value_served:
  assumes "truthy (get_cache s (search_key query limit))"
    and "search_albums_endpoint w query limit s = (r, s')"
  shows "entries s' = entries s
       \<and> set (events_since s s')
            \<subseteq> {GetCache (search_key query limit), RecordRequest True, RecordError}
       \<and> r = (case comprehension (SearchResult w) (get_cache s (search_key query limit)) of
                  Inr v \<Rightarrow> Inr v
                | Inl (HTTPException code detail) \<Rightarrow>
                    Inl (HTTPException 503 (str_HTTPException w code detail))
                | Inl (Exception msg) \<Rightarrow> Inl (HTTPException 503 msg))"
  using assms by (auto simp: endpoint_defs path_eqs split: ep_splits)

lemma user_true_cached_value_served:
  assumes "\<not> refresh" and "truthy (get_cache s (user_key username))"
    and "get_user_endpoint w username refresh s = (r, s')"
  shows "entries s' = entries s
       \<and> set (events_since s s')
            \<subseteq> {GetCache (user_key username), RecordRequest True, RecordError}
       \<and> r = (case UserProfile w (get_cache s (user_key username)) of
                  Inr v \<Rightarrow> Inr v
                | Inl (HTTPException code detail) \<Rightarrow> Inl (HTTPException code detail)
                | Inl (Exception msg) \<Rightarrow> Inl (HTTPException 503 msg))"
  using assms by (auto simp: endpoint_defs path_eqs split: ep_splits)

text \<open>
  C4: a request with \<^verbatim>\<open>refresh\<close> unset for which the cache returns a value should not
  reach the scraper. The endpoints test the truth value of what the cache returned, so a
  cached empty list is taken for a miss. A search with no upstream results stores
  \<^verbatim>\<open>[]\<close> under its key; the same search again, with that entry fresh, gets \<^verbatim>\<open>[]\<close> from
  the cache and calls \<^verbatim>\<open>search_albums\<close> and \<^verbatim>\<open>set_cache\<close> once more.
\<close>

theorem cached_empty_list_is_fetched_again:
  "fst (search_albums_endpoint demo_world ''Nothing'' 10 empty_state) = Inr []
   \<and> get_cache (snd (search_albums_endpoint demo_world ''Nothing'' 10 empty_state))
        (search_key ''Nothing'' 10) = JList []
   \<and> events_since (snd (search_albums_endpoint demo_world ''Nothing'' 10 empty_state))
        (snd (search_albums_endpoint demo_world ''Nothing'' 10
               (snd (search_albums_endpoint demo_world ''Nothing'' 10 empty_state))))
      = [GetCache ''search:Nothing:10'', RecordRequest False, SearchAlbums ''Nothing'' 10,
         SetCache ''search:Nothing:10'' (JList []) 300, RecordResponseTime]"
  by code_simp

end
